theory Spec2Isabelle
  imports Main "HOL-Library.AList" "HOL-Library.Sublist" "HOL-Library.Char_ord"
    "HOL-Library.List_Lexorder"
begin

section \<open>Values and errors\<close>

text \<open>
  Go values of static type \<open>any\<close>, as the YAML decoder hands them to the program.
  A slice or a map can be \<open>nil\<close> (\<open>GNilSlice\<close>, \<open>GNilMap\<close>) or allocated, possibly
  with no element. A Go map is an association list with distinct keys; only \<open>map_of\<close>
  of it is observable, since Go fixes no iteration order. \<open>GFloatNaN\<close> is the
  \<open>float64\<close> that YAML's \<open>.nan\<close> decodes to: a value \<open>json.Marshal\<close> rejects.
\<close>

datatype gval =
    GNil
  | GBool bool
  | GInt int
  | GString string
  | GFloatNaN
  | GNilSlice
  | GSlice "gval list"
  | GNilMap
  | GMap "(string \<times> gval) list"

type_synonym go_map = "(string \<times> gval) list option"

text \<open>A \<open>map[string]any\<close> (nil or allocated) stored into an \<open>any\<close>.\<close>

definition map_value :: "go_map \<Rightarrow> gval" where
  "map_value m = (case m of None \<Rightarrow> GNilMap | Some kvs \<Rightarrow> GMap kvs)"

text \<open>
  Go errors. \<open>Wrapf msg e\<close> is \<open>fmt.Errorf(msg + ": %w", e)\<close>, \<open>Join es\<close> is
  \<open>errors.Join\<close> of the non-nil errors \<open>es\<close>, and \<open>RuntimePanic\<close> is a run-time
  panic: the function did not return.
\<close>

datatype error =
    ErrorString string
  | Wrapf string error
  | Join "error list"
  | RuntimePanic string

section \<open>Tree flattener\<close>

text \<open>\<open>fleetpkg.Processor\<close>: the fields \<open>FlattenProcessors\<close> reads.\<close>

datatype Processor = Processor
  (Type: string)
  (Attributes: go_map)
  (OnFailure: "Processor option list")
  (Path: string)
  (Line: int)
  (Column: int)

record FlatProcessor =
  Type :: string
  Attributes :: "(string \<times> gval) list"
  JSONPointer :: string
  FilePath :: string
  Line :: int
  Column :: int

text \<open>The verb \<open>%d\<close> of \<open>fmt.Sprintf\<close> on a loop index (never negative).\<close>

fun fmt_d :: "nat \<Rightarrow> string" where
  "fmt_d n = (if n < 10 then [''0123456789'' ! n]
              else fmt_d (n div 10) @ [''0123456789'' ! (n mod 10)])"

declare fmt_d.simps [simp del]

text \<open>
  \<open>attrs := make(map[string]any); for k, v := range p.Attributes { attrs[k] = v }\<close>:
  ranging over a nil map runs no iteration, and the copy is always allocated.
\<close>

definition copy_attributes :: "go_map \<Rightarrow> (string \<times> gval) list" where
  "copy_attributes m =
     foldr (\<lambda>(k, v) attrs. AList.update k v attrs) (case m of None \<Rightarrow> [] | Some kvs \<Rightarrow> kvs) []"

text \<open>The run-time panic of reading a field through a nil pointer.\<close>

definition nil_panic :: error where
  "nil_panic = RuntimePanic ''invalid memory address or nil pointer dereference''"

text \<open>
  The loop that builds \<open>onFailureJSON\<close>: one single-key map per entry of the failure
  branch. It reads \<open>of.Type\<close> with no nil check, so a nil entry panics.
\<close>

fun onFailureJSON :: "Processor option list \<Rightarrow> gval list \<Rightarrow> error + gval list" where
  "onFailureJSON [] acc = Inr acc"
| "onFailureJSON (None # ofs) acc = Inl nil_panic"
| "onFailureJSON (Some f # ofs) acc =
     onFailureJSON ofs (acc @ [GMap [(Processor.Type f, map_value (Processor.Attributes f))]])"

lemma size_OnFailure [termination_simp]:
  "size_list (size_option size) (OnFailure p) < Suc (size p)"
  by (cases p) simp

text \<open>
  \<open>FlattenProcessors\<close>: \<open>flatten_loop i ps basePath result\<close> is the \<open>for i, p := range\<close>
  loop from index \<open>i\<close> on, with \<open>result\<close> the records appended so far.
\<close>

function flatten_loop ::
  "nat \<Rightarrow> Processor option list \<Rightarrow> string \<Rightarrow> FlatProcessor list \<Rightarrow> error + FlatProcessor list"
where
  "flatten_loop i [] basePath result = Inr result"
| "flatten_loop i (None # ps) basePath result = flatten_loop (Suc i) ps basePath result"
| "flatten_loop i (Some p # ps) basePath result =
     (let jsonPointer = basePath @ ''/'' @ fmt_d i @ ''/'' @ Processor.Type p;
          attrs = copy_attributes (Processor.Attributes p)
      in if length (OnFailure p) > 0 then
           (case flatten_loop 0 (OnFailure p) (jsonPointer @ ''/on_failure'') [] of
              Inl err \<Rightarrow> Inl err
            | Inr onFailureFlat \<Rightarrow>
                (case onFailureJSON (OnFailure p) [] of
                   Inl pan \<Rightarrow> Inl pan
                 | Inr js \<Rightarrow>
                     flatten_loop (Suc i) ps basePath
                       ((result @ onFailureFlat) @
                        [\<lparr>Type = Processor.Type p,
                          Attributes = AList.update ''on_failure'' (GSlice js) attrs,
                          JSONPointer = jsonPointer,
                          FilePath = Path p,
                          Line = Processor.Line p,
                          Column = Processor.Column p\<rparr>])))
         else
           flatten_loop (Suc i) ps basePath
             (result @
              [\<lparr>Type = Processor.Type p,
                Attributes = attrs,
                JSONPointer = jsonPointer,
                FilePath = Path p,
                Line = Processor.Line p,
                Column = Processor.Column p\<rparr>]))"
  by pat_completeness auto
termination
proof (relation "measure (\<lambda>(i, ps, basePath, result). size_list (size_option size) ps)",
    goal_cases)
  case (3 i p ps basePath result)
  then show ?case
    using size_OnFailure [of p] by simp
qed simp_all

definition FlattenProcessors ::
  "Processor option list \<Rightarrow> string \<Rightarrow> error + FlatProcessor list" where
  "FlattenProcessors processors basePath = flatten_loop 0 processors basePath []"


subsection \<open>Vocabulary of the flattener's contract\<close>

text \<open>The locator of the node at index \<open>i\<close> with declared type \<open>T\<close>, as the spec writes it.\<close>

definition locator :: "string \<Rightarrow> nat \<Rightarrow> string \<Rightarrow> string" where
  "locator basePath i T = basePath @ ''/'' @ fmt_d i @ ''/'' @ T"

text \<open>One entry of the embedded summary: the branch processor's type and attributes only.\<close>

definition summary_entry :: "Processor \<Rightarrow> gval" where
  "summary_entry q = GMap [(Processor.Type q, map_value (Processor.Attributes q))]"

text \<open>No failure branch, at any depth, holds a nil entry (the list itself may).\<close>

function branches_nil_free :: "Processor option list \<Rightarrow> bool" where
  "branches_nil_free [] = True"
| "branches_nil_free (None # ps) = branches_nil_free ps"
| "branches_nil_free (Some p # ps) =
     (None \<notin> set (OnFailure p) \<and> branches_nil_free (OnFailure p) \<and> branches_nil_free ps)"
  by pat_completeness auto
termination
proof (relation "measure (size_list (size_option size))", goal_cases)
  case (3 p ps)
  then show ?case
    using size_OnFailure [of p] by simp
qed simp_all

text \<open>The record the loop appends for the node \<open>p\<close> at index \<open>i\<close>.\<close>

definition own_record :: "string \<Rightarrow> nat \<Rightarrow> Processor \<Rightarrow> FlatProcessor" where
  "own_record b i p =
     \<lparr>Type = Processor.Type p,
      Attributes =
        (if OnFailure p = [] then copy_attributes (Processor.Attributes p)
         else AList.update ''on_failure'' (GSlice (map (\<lambda>q. summary_entry (the q)) (OnFailure p)))
                (copy_attributes (Processor.Attributes p))),
      JSONPointer = locator b i (Processor.Type p),
      FilePath = Path p,
      Line = Processor.Line p,
      Column = Processor.Column p\<rparr>"



subsection \<open>Example pipeline\<close>

text \<open>
  \<open>rename\<close> with the failure branch \<open>[set]\<close>, followed by \<open>remove\<close>: the shape
  \<open>[A(fails -> [B]), C]\<close> of the spec's flattening-order property.
\<close>

definition example_set :: Processor where
  "example_set =
     Processor ''set'' (Some [(''field'', GString ''error.message'')]) [] ''default.yml'' 5 9"

definition example_rename :: Processor where
  "example_rename =
     Processor ''rename'' (Some [(''field'', GString ''old_field'')]) [Some example_set]
       ''default.yml'' 2 5"

definition example_remove :: Processor where
  "example_remove =
     Processor ''remove'' (Some [(''field'', GString ''bytes'')]) [] ''default.yml'' 8 5"


section \<open>JSON interchange form\<close>

text \<open>
  \<open>encoding/json.Marshal\<close> on the values of \<open>gval\<close>: map keys sorted, no white
  space, strings quoted with Go's escapes (the HTML-safe ones included: the characters
  less-than, greater-than and ampersand are written as a six-character unicode escape);
  bytes from 0x80 on are copied, as for valid UTF-8 text. A NaN is an
  \<open>UnsupportedValueError\<close>.
\<close>

definition hex_digit :: "nat \<Rightarrow> char" where
  "hex_digit n = ''0123456789abcdef'' ! n"

definition json_escape :: "char \<Rightarrow> string" where
  "json_escape c =
     (if c = CHR 0x22 then [CHR 0x5C, CHR 0x22]
      else if c = CHR 0x5C then [CHR 0x5C, CHR 0x5C]
      else if c = CHR 0x08 then [CHR 0x5C, CHR ''b'']
      else if c = CHR 0x0C then [CHR 0x5C, CHR ''f'']
      else if c = CHR 0x0A then [CHR 0x5C, CHR ''n'']
      else if c = CHR 0x0D then [CHR 0x5C, CHR ''r'']
      else if c = CHR 0x09 then [CHR 0x5C, CHR ''t'']
      else if of_char c < (0x20 :: nat) \<or> c = CHR ''<'' \<or> c = CHR ''>'' \<or> c = CHR ''&''
        then [CHR 0x5C, CHR ''u'', CHR ''0'', CHR ''0'',
              hex_digit (of_char c div 16), hex_digit (of_char c mod 16)]
      else [c])"

definition json_string :: "string \<Rightarrow> string" where
  "json_string s = [CHR 0x22] @ concat (map json_escape s) @ [CHR 0x22]"

definition json_int :: "int \<Rightarrow> string" where
  "json_int n = (if n < 0 then ''-'' @ fmt_d (nat (- n)) else fmt_d (nat n))"

fun join_comma :: "string list \<Rightarrow> string" where
  "join_comma [] = []"
| "join_comma [x] = x"
| "join_comma (x # y # zs) = x @ '','' @ join_comma (y # zs)"

fun json_Marshal :: "gval \<Rightarrow> error + string"
  and json_elements :: "gval list \<Rightarrow> error + string list"
  and json_members :: "(string \<times> gval) list \<Rightarrow> error + (string \<times> string) list"
where
  "json_Marshal GNil = Inr ''null''"
| "json_Marshal (GBool b) = Inr (if b then ''true'' else ''false'')"
| "json_Marshal (GInt n) = Inr (json_int n)"
| "json_Marshal (GString s) = Inr (json_string s)"
| "json_Marshal GFloatNaN = Inl (ErrorString ''json: unsupported value: NaN'')"
| "json_Marshal GNilSlice = Inr ''null''"
| "json_Marshal (GSlice xs) =
     (case json_elements xs of
        Inl e \<Rightarrow> Inl e
      | Inr js \<Rightarrow> Inr (''['' @ join_comma js @ '']''))"
| "json_Marshal GNilMap = Inr ''null''"
| "json_Marshal (GMap kvs) =
     (case json_members kvs of
        Inl e \<Rightarrow> Inl e
      | Inr ms \<Rightarrow>
          Inr (''{'' @ join_comma (map (\<lambda>(k, j). json_string k @ '':'' @ j) (sort_key fst ms))
               @ ''}''))"
| "json_elements [] = Inr []"
| "json_elements (x # xs) =
     (case json_Marshal x of
        Inl e \<Rightarrow> Inl e
      | Inr j \<Rightarrow> (case json_elements xs of Inl e \<Rightarrow> Inl e | Inr js \<Rightarrow> Inr (j # js)))"
| "json_members [] = Inr []"
| "json_members ((k, v) # kvs) =
     (case json_Marshal v of
        Inl e \<Rightarrow> Inl e
      | Inr j \<Rightarrow> (case json_members kvs of Inl e \<Rightarrow> Inl e | Inr ms \<Rightarrow> Inr ((k, j) # ms)))"

section \<open>Relational projector\<close>

text \<open>
  \<open>sql.NullString\<close>, \<open>sql.NullBool\<close> and \<open>sql.NullInt64\<close> are options: \<open>None\<close> is
  the SQL NULL (\<open>Valid = false\<close>), \<open>Some v\<close> a valid \<open>v\<close>. A Go pointer is an option
  as well, \<open>None\<close> for nil.
\<close>

definition sqlNullString :: "string option \<Rightarrow> string option" where
  "sqlNullString s = (case s of None \<Rightarrow> None | Some v \<Rightarrow> Some v)"

definition sqlStringEmtpyIsNull :: "string \<Rightarrow> string option" where
  "sqlStringEmtpyIsNull s = (if s = '''' then None else Some s)"

definition sqlNullInt64 :: "int option \<Rightarrow> int option" where
  "sqlNullInt64 i = (case i of None \<Rightarrow> None | Some v \<Rightarrow> Some v)"

definition sqlNullBool :: "bool option \<Rightarrow> bool option" where
  "sqlNullBool b = (case b of None \<Rightarrow> None | Some v \<Rightarrow> Some v)"

text \<open>
  What \<open>jsonNullString\<close> asks of \<open>reflect.ValueOf(v)\<close>. \<open>IsZero\<close> is not defined on
  the invalid value of a nil interface; \<open>jsonNullString\<close> tests \<open>IsValid\<close> first.
\<close>

definition IsValid :: "gval \<Rightarrow> bool" where
  "IsValid v = (v \<noteq> GNil)"

fun IsZero :: "gval \<Rightarrow> bool" where
  "IsZero (GBool b) = (\<not> b)"
| "IsZero (GInt n) = (n = 0)"
| "IsZero (GString s) = (s = [])"
| "IsZero GFloatNaN = False"
| "IsZero GNilSlice = True"
| "IsZero (GSlice xs) = False"
| "IsZero GNilMap = True"
| "IsZero (GMap kvs) = False"

fun Kind_Slice :: "gval \<Rightarrow> bool" where
  "Kind_Slice GNilSlice = True"
| "Kind_Slice (GSlice xs) = True"
| "Kind_Slice v = False"

fun Len :: "gval \<Rightarrow> nat" where
  "Len (GSlice xs) = length xs"
| "Len (GMap kvs) = length kvs"
| "Len (GString s) = length s"
| "Len v = 0"

text \<open>
  \<open>jsonNullString\<close>, with \<open>json.Marshal\<close> as the parameter \<open>marshal\<close>. The source
  drops the encoder's error (\<open>j, _ := json.Marshal(v)\<close>): on an error \<open>j\<close> is nil and
  the column is the valid empty string.
\<close>

definition jsonNullString :: "(gval \<Rightarrow> error + string) \<Rightarrow> gval \<Rightarrow> string option" where
  "jsonNullString marshal v =
     (if \<not> IsValid v then None
      else if IsZero v then None
      else if Kind_Slice v \<and> Len v = 0 then None
      else Some (case marshal v of Inl err \<Rightarrow> [] | Inr j \<Rightarrow> j))"

text \<open>A \<open>[]string\<close> (nil or allocated) passed as an \<open>any\<close>.\<close>

definition strings_any :: "string list option \<Rightarrow> gval" where
  "strings_any xs = (case xs of None \<Rightarrow> GNilSlice | Some ys \<Rightarrow> GSlice (map GString ys))"

subsection \<open>Variables\<close>

record VarOption =
  Value :: string
  Text :: string

record Var =
  Name :: string
  Default :: gval
  Description :: string
  Type :: string
  Title :: string
  Multi :: "bool option"
  Required :: "bool option"
  Secret :: "bool option"
  ShowUser :: "bool option"
  HideInDeploymentModes :: "string list option"
  Options :: "VarOption list"
  Path :: string
  Line :: int
  Column :: int

record InsertVarParams =
  Name :: string
  DefaultValue :: "string option"
  Description :: "string option"
  Type :: string
  Title :: "string option"
  Multi :: "bool option"
  Required :: "bool option"
  Secret :: "bool option"
  ShowUser :: "bool option"
  HideInDeploymentModes :: "string option"
  FilePath :: string
  LineNumber :: int
  Col :: int

text \<open>The row \<open>insertVar\<close> hands to \<open>q.InsertVar\<close>.\<close>

definition insertVar_params :: "(gval \<Rightarrow> error + string) \<Rightarrow> Var \<Rightarrow> InsertVarParams" where
  "insertVar_params marshal v =
     \<lparr>InsertVarParams.Name = Var.Name v,
      DefaultValue = jsonNullString marshal (Default v),
      InsertVarParams.Description = Some (Var.Description v),
      InsertVarParams.Type = Var.Type v,
      InsertVarParams.Title = Some (Var.Title v),
      InsertVarParams.Multi = sqlNullBool (Var.Multi v),
      InsertVarParams.Required = sqlNullBool (Var.Required v),
      InsertVarParams.Secret = sqlNullBool (Var.Secret v),
      InsertVarParams.ShowUser = sqlNullBool (Var.ShowUser v),
      InsertVarParams.HideInDeploymentModes =
        jsonNullString marshal (strings_any (Var.HideInDeploymentModes v)),
      InsertVarParams.FilePath = Var.Path v,
      LineNumber = Var.Line v,
      Col = Var.Column v\<rparr>"

subsection \<open>Fields\<close>

text \<open>\<open>fleetpkg.Field\<close>, flattened, and the entry of the ECS dictionary it may refer to.\<close>

record Field =
  Name :: string
  Type :: string
  Description :: string
  Value :: gval
  Example :: gval
  Pattern :: string
  DateFormat :: string
  Analyzer :: string
  SearchAnalyzer :: string
  IgnoreAbove :: int
  MultiFields :: gval
  Enabled :: "bool option"
  Dynamic :: string
  Index :: "bool option"
  DocValues :: "bool option"
  CopyTo :: string
  ScalingFactor :: "int option"
  AliasTargetPath :: string
  Normalize :: "string list option"
  Normalizer :: string
  NullValue :: gval
  Dimension :: "bool option"
  MetricType :: string
  External :: string
  YAMLPath :: string
  Path :: string
  Line :: int
  Column :: int

record ecs_Field =
  Name :: string
  DataType :: string
  Pattern :: string
  Array :: bool
  Description :: string

record InsertFieldParams =
  Name :: string
  Type :: "string option"
  Description :: "string option"
  Value :: "string option"
  Example :: "string option"
  Pattern :: "string option"
  DateFormat :: "string option"
  Analyzer :: "string option"
  SearchAnalyzer :: "string option"
  IgnoreAbove :: "int option"
  MultiFields :: "string option"
  Enabled :: "bool option"
  Dynamic :: "string option"
  Indexed :: "bool option"
  DocValues :: "bool option"
  CopyTo :: "string option"
  ScalingFactor :: "int option"
  AliasTargetPath :: "string option"
  Normalize :: "string option"
  Normalizer :: "string option"
  NullValue :: "string option"
  Dimension :: "bool option"
  MetricType :: "string option"
  External :: "string option"
  YamlPath :: "string option"
  Unresolvable :: "int option"
  FilePath :: string
  LineNumber :: int
  Col :: int

text \<open>
  \<open>insertField\<close> builds the row it hands to \<open>q.InsertField\<close> in two steps. First
  the field's own attributes (the composite literal \<open>p\<close>):
\<close>

definition field_params :: "(gval \<Rightarrow> error + string) \<Rightarrow> Field \<Rightarrow> InsertFieldParams" where
  "field_params marshal f =
     \<lparr>InsertFieldParams.Name = Field.Name f,
      InsertFieldParams.Type = sqlStringEmtpyIsNull (Field.Type f),
      InsertFieldParams.Description = sqlStringEmtpyIsNull (Field.Description f),
      InsertFieldParams.Value = jsonNullString marshal (Field.Value f),
      InsertFieldParams.Example = jsonNullString marshal (Field.Example f),
      InsertFieldParams.Pattern = sqlStringEmtpyIsNull (Field.Pattern f),
      InsertFieldParams.DateFormat = sqlStringEmtpyIsNull (Field.DateFormat f),
      InsertFieldParams.Analyzer = sqlStringEmtpyIsNull (Field.Analyzer f),
      InsertFieldParams.SearchAnalyzer = sqlStringEmtpyIsNull (Field.SearchAnalyzer f),
      InsertFieldParams.IgnoreAbove =
        (if Field.IgnoreAbove f > 0 then Some (Field.IgnoreAbove f) else None),
      InsertFieldParams.MultiFields = jsonNullString marshal (Field.MultiFields f),
      InsertFieldParams.Enabled = sqlNullBool (Field.Enabled f),
      InsertFieldParams.Dynamic = sqlStringEmtpyIsNull (Field.Dynamic f),
      Indexed = sqlNullBool (Index f),
      InsertFieldParams.DocValues = sqlNullBool (Field.DocValues f),
      InsertFieldParams.CopyTo = sqlStringEmtpyIsNull (Field.CopyTo f),
      InsertFieldParams.ScalingFactor = sqlNullInt64 (Field.ScalingFactor f),
      InsertFieldParams.AliasTargetPath = sqlStringEmtpyIsNull (Field.AliasTargetPath f),
      InsertFieldParams.Normalize = jsonNullString marshal (strings_any (Field.Normalize f)),
      InsertFieldParams.Normalizer = sqlStringEmtpyIsNull (Field.Normalizer f),
      InsertFieldParams.NullValue = jsonNullString marshal (Field.NullValue f),
      InsertFieldParams.Dimension = sqlNullBool (Field.Dimension f),
      InsertFieldParams.MetricType = sqlStringEmtpyIsNull (Field.MetricType f),
      InsertFieldParams.External = sqlStringEmtpyIsNull (Field.External f),
      YamlPath = sqlStringEmtpyIsNull (YAMLPath f),
      Unresolvable = None,
      InsertFieldParams.FilePath = Field.Path f,
      InsertFieldParams.LineNumber = Field.Line f,
      InsertFieldParams.Col = Field.Column f\<rparr>"

text \<open>
  Then the four guarded assignments under \<open>if externalDef != nil\<close>, in the source's
  order, each on the row the previous one left.
\<close>

definition merge_type :: "ecs_Field \<Rightarrow> InsertFieldParams \<Rightarrow> InsertFieldParams" where
  "merge_type d p =
     (if InsertFieldParams.Type p = None \<and> DataType d \<noteq> ''''
      then p\<lparr>InsertFieldParams.Type := sqlStringEmtpyIsNull (DataType d)\<rparr> else p)"

definition merge_pattern :: "ecs_Field \<Rightarrow> InsertFieldParams \<Rightarrow> InsertFieldParams" where
  "merge_pattern d p =
     (if InsertFieldParams.Pattern p = None \<and> ecs_Field.Pattern d \<noteq> ''''
      then p\<lparr>InsertFieldParams.Pattern := sqlStringEmtpyIsNull (ecs_Field.Pattern d)\<rparr> else p)"

definition merge_normalize ::
  "(gval \<Rightarrow> error + string) \<Rightarrow> ecs_Field \<Rightarrow> InsertFieldParams \<Rightarrow> InsertFieldParams" where
  "merge_normalize marshal d p =
     (if InsertFieldParams.Normalizer p = None \<and> Array d
      then p\<lparr>InsertFieldParams.Normalize :=
               jsonNullString marshal (strings_any (Some [''array'']))\<rparr>
      else p)"

definition merge_description :: "ecs_Field \<Rightarrow> InsertFieldParams \<Rightarrow> InsertFieldParams" where
  "merge_description d p =
     (if InsertFieldParams.Description p = None \<and> ecs_Field.Description d \<noteq> ''''
      then p\<lparr>InsertFieldParams.Description := sqlStringEmtpyIsNull (ecs_Field.Description d)\<rparr>
      else p)"

text \<open>\<open>externalDef\<close> is \<open>None\<close> for a nil pointer: the reference did not resolve.\<close>

definition insertField_params ::
  "(gval \<Rightarrow> error + string) \<Rightarrow> Field \<Rightarrow> ecs_Field option \<Rightarrow> InsertFieldParams" where
  "insertField_params marshal f externalDef =
     (let p = field_params marshal f
      in case externalDef of
        Some d \<Rightarrow>
          merge_description d (merge_normalize marshal d (merge_pattern d (merge_type d p)))
      | None \<Rightarrow>
          (if Field.External f = ''ecs'' then p\<lparr>Unresolvable := Some 1\<rparr> else p))"

subsection \<open>Example field and variable\<close>

text \<open>
  A field \<open>host.ip\<close> that refers to ECS and declares its own type and normalization,
  and the ECS entry it resolves to.
\<close>

definition example_field :: Field where
  "example_field =
     \<lparr>Field.Name = ''host.ip'', Field.Type = ''keyword'', Field.Description = '''',
      Field.Value = GNil, Field.Example = GNil, Field.Pattern = '''', Field.DateFormat = '''',
      Field.Analyzer = '''', Field.SearchAnalyzer = '''', Field.IgnoreAbove = 0,
      Field.MultiFields = GNilSlice, Field.Enabled = None, Field.Dynamic = '''',
      Index = None, Field.DocValues = None, Field.CopyTo = '''', Field.ScalingFactor = None,
      Field.AliasTargetPath = '''', Field.Normalize = Some [''custom''],
      Field.Normalizer = '''', Field.NullValue = GNil, Field.Dimension = None,
      Field.MetricType = '''', Field.External = ''ecs'', YAMLPath = ''$[0]'',
      Field.Path = ''fields/ecs.yml'', Field.Line = 1, Field.Column = 3\<rparr>"

definition example_ecs :: ecs_Field where
  "example_ecs =
     \<lparr>ecs_Field.Name = ''host.ip'', DataType = ''ip'', ecs_Field.Pattern = '''',
      Array = True, ecs_Field.Description = ''Host ip addresses.''\<rparr>"

definition example_var :: Var where
  "example_var =
     \<lparr>Var.Name = ''paths'', Default = GSlice [], Var.Description = ''Log paths'',
      Var.Type = ''text'', Var.Title = ''Paths'', Var.Multi = Some True,
      Var.Required = None, Var.Secret = None, Var.ShowUser = None,
      Var.HideInDeploymentModes = None, Options = [],
      Var.Path = ''manifest.yml'', Var.Line = 10, Var.Column = 5\<rparr>"

section \<open>Query surface and build orchestrator\<close>

text \<open>\<open>err.Error()\<close>, the text that the verb \<open>%v\<close> prints for an error.\<close>

fun Error :: "error \<Rightarrow> string" and Errors :: "error list \<Rightarrow> string" where
  "Error (ErrorString s) = s"
| "Error (Wrapf msg e) = msg @ '': '' @ Error e"
| "Error (Join es) = Errors es"
| "Error (RuntimePanic s) = s"
| "Errors [] = []"
| "Errors [e] = Error e"
| "Errors (e # e' # es) = Error e @ [CHR 0x0A] @ Errors (e' # es)"

text \<open>
  A column value as \<open>rows.Scan\<close> stores it into an \<open>interface{}\<close>, and the store as the
  query tool sees it: \<open>db.QueryContext\<close> fails or gives rows; \<open>rows.Columns\<close> fails or
  gives the column names; each row that \<open>rows.Next\<close> announces scans or fails.
\<close>

datatype sqlval = SqlNull | SqlInt int | SqlText string | SqlBytes string

record sql_Rows =
  Columns :: "error + string list"
  Scans :: "(error + sqlval list) list"

type_synonym sql_DB = "string \<Rightarrow> error + sql_Rows"

text \<open>
  \<open>mcp.CallToolResult\<close> with its single text content. \<open>executeQuery\<close> returns it with
  a nil \<open>any\<close> and a Go error, here \<open>error option\<close>.
\<close>

record CallToolResult =
  Text :: string
  IsError :: bool

definition mcpErrorf :: "string \<Rightarrow> CallToolResult" where
  "mcpErrorf msg = \<lparr>Text = ''ERROR: '' @ msg, IsError = True\<rparr>"

text \<open>\<open>val.([]byte)\<close> is coerced to a string; any other value is kept.\<close>

fun column_value :: "sqlval \<Rightarrow> gval" where
  "column_value (SqlBytes b) = GString b"
| "column_value (SqlText s) = GString s"
| "column_value (SqlInt n) = GInt n"
| "column_value SqlNull = GNil"

text \<open>\<open>row[column] = ...\<close> for each column in turn; \<open>values\<close> has one entry per column.\<close>

fun scan_row :: "string list \<Rightarrow> sqlval list \<Rightarrow> (string \<times> gval) list \<Rightarrow> (string \<times> gval) list" where
  "scan_row (column # columns) (val # vals) row =
     scan_row columns vals (AList.update column (column_value val) row)"
| "scan_row columns vals row = row"

text \<open>
  The loop \<open>for rows.Next()\<close>: \<open>result\<close> is \<open>None\<close> while the slice is still nil
  (\<open>var result []map[string]interface{}\<close>).
\<close>

fun scan_rows ::
  "string list \<Rightarrow> (error + sqlval list) list \<Rightarrow> (string \<times> gval) list list option \<Rightarrow>
   error + (string \<times> gval) list list option" where
  "scan_rows columns [] result = Inr result"
| "scan_rows columns (Inl err # rest) result = Inl err"
| "scan_rows columns (Inr vals # rest) result =
     scan_rows columns rest
       (Some ((case result of None \<Rightarrow> [] | Some rs \<Rightarrow> rs) @ [scan_row columns vals []]))"

text \<open>
  \<open>executeQuery\<close>, in the version of the tool that reads the shared
  \<open>atomic.Pointer[sql.DB]\<close> which \<open>run\<close> hands to \<open>AddTools\<close>; \<open>dbPtr\<close> is what
  \<open>t.db.Load()\<close> returns, \<open>None\<close> for nil. Logging is left out.
\<close>

definition executeQuery ::
  "sql_DB option \<Rightarrow> (gval \<Rightarrow> error + string) \<Rightarrow> string \<Rightarrow> CallToolResult \<times> error option" where
  "executeQuery dbPtr marshal statement =
     (case dbPtr of
        None \<Rightarrow> (mcpErrorf ''database is still initializing, please retry in a moment'', None)
      | Some db \<Rightarrow>
          (case db statement of
             Inl err \<Rightarrow> (mcpErrorf (''failed to execute query: '' @ Error err), None)
           | Inr rows \<Rightarrow>
               (case Columns rows of
                  Inl err \<Rightarrow> (mcpErrorf (''failed to get columns: '' @ Error err), None)
                | Inr columns \<Rightarrow>
                    (case scan_rows columns (Scans rows) None of
                       Inl err \<Rightarrow> (mcpErrorf (''failed to scan row: '' @ Error err), None)
                     | Inr result \<Rightarrow>
                         (case marshal (case result of None \<Rightarrow> GNilSlice
                                        | Some rs \<Rightarrow> GSlice (map GMap rs)) of
                            Inl err \<Rightarrow>
                              (mcpErrorf (''failed to marshal result: '' @ Error err), None)
                          | Inr jsonRows \<Rightarrow> (\<lparr>Text = jsonRows, IsError = False\<rparr>, None))))))"

text \<open>
  The shared pointer that \<open>run\<close> hands to the tools, \<open>&atomic.Pointer[sql.DB]{}\<close>: it
  starts nil, and holds no store until the background task publishes one.
\<close>

definition initial_dbPtr :: "sql_DB option" where
  "initial_dbPtr = None"

text \<open>A store in which every statement is rejected, and one with a single table of one row.\<close>

definition example_rejecting_db :: sql_DB where
  "example_rejecting_db statement = Inl (ErrorString ''SQL logic error: near \"SELEC\": syntax error (1)'')"

definition example_db :: sql_DB where
  "example_db statement =
     Inr \<lparr>Columns = Inr [''name'', ''version''],
          Scans = [Inr [SqlText ''nginx'', SqlBytes ''1.2.0'']]\<rparr>"

section \<open>Transactional writer\<close>

subsection \<open>Rows, the store and the driver\<close>

text \<open>
  The rows of \<open>vars\<close>, \<open>fields\<close> and \<open>ingest_processors\<close> are kept in full. For the
  other tables a row keeps its foreign keys and the texts that name it (\<open>Columns\<close>):
  their remaining columns are straight copies of attributes.
\<close>

record InsertIngestProcessorParams =
  IngestPipelineID :: int
  Type :: string
  Attributes :: "string option"
  JsonPointer :: string
  FilePath :: string
  LineNumber :: int
  Col :: int

datatype params =
    VarParams InsertVarParams
  | FieldParams InsertFieldParams
  | IngestProcessorParams InsertIngestProcessorParams
  | Columns "int list" "string list"

record row =
  table :: string
  key :: int
  params :: params

text \<open>
  The store: the tables created, the rows visible to a reader, and a history of the
  inserts the driver rejected (a record of what happened, which no rollback erases).
  A transaction works on a copy of the store.
\<close>

record store =
  tables :: "string list"
  rows :: "row list"
  rejected :: "(row \<times> error) list"

text \<open>
  What the SQL driver decides: whether \<open>Begin\<close>, a statement, an insert, \<open>Commit\<close>
  or \<open>Rollback\<close> fails, and with which error. And what else lies outside the
  repository: \<open>json.Marshal\<close>, \<open>ecs.Lookup\<close> (\<open>None\<close> when it finds nothing or
  fails), and the generated list \<open>database.Creates\<close> of table statements.
\<close>

record driver =
  begin_error :: "store \<Rightarrow> error option"
  exec_error :: "store \<Rightarrow> string \<Rightarrow> error option"
  insert_error :: "store \<Rightarrow> row \<Rightarrow> error option"
  commit_error :: "store \<Rightarrow> error option"
  rollback_error :: "store \<Rightarrow> error option"

record world =
  sql_driver :: driver
  json_encoder :: "gval \<Rightarrow> error + string"
  ecs_Lookup :: "string \<Rightarrow> string \<Rightarrow> ecs_Field option"
  Creates :: "string list"

subsection \<open>Statements inside a transaction\<close>

text \<open>
  A statement of \<open>insertPackage\<close> runs on the transaction's state and returns a value
  (\<open>Ok\<close>), returns an error (\<open>Err\<close>) or panics. \<open>and_then\<close> is the source's
  \<open>if err != nil { return err }\<close>: the first error ends the function.
\<close>

datatype 'a result = Ok 'a | Err error | Panicked string

type_synonym 'a tx = "store \<Rightarrow> 'a result \<times> store"

definition ok :: "'a \<Rightarrow> 'a tx" where
  "ok x s = (Ok x, s)"

definition and_then :: "'a tx \<Rightarrow> ('a \<Rightarrow> 'b tx) \<Rightarrow> 'b tx" where
  "and_then m f s =
     (case m s of
        (Ok x, s') \<Rightarrow> f x s'
      | (Err e, s') \<Rightarrow> (Err e, s')
      | (Panicked p, s') \<Rightarrow> (Panicked p, s'))"

definition seq :: "'a tx \<Rightarrow> 'b tx \<Rightarrow> 'b tx" where
  "seq m n = and_then m (\<lambda>x. n)"

fun for_each :: "'a list \<Rightarrow> ('a \<Rightarrow> 'b tx) \<Rightarrow> unit tx" where
  "for_each [] f = ok ()"
| "for_each (x # xs) f = seq (f x) (for_each xs f)"

text \<open>\<open>return fmt.Errorf(msg + ": %w", err)\<close> in place of \<open>return err\<close>.\<close>

definition wrapped :: "string \<Rightarrow> 'a tx \<Rightarrow> 'a tx" where
  "wrapped msg m s =
     (case m s of
        (Err e, s') \<Rightarrow> (Err (Wrapf msg e), s')
      | other \<Rightarrow> other)"

text \<open>
  A pure call that returns a value or an error; a \<open>RuntimePanic\<close> among its errors
  is a panic of the caller too.
\<close>

definition call :: "error + 'a \<Rightarrow> 'a tx" where
  "call r s =
     (case r of
        Inr x \<Rightarrow> (Ok x, s)
      | Inl (RuntimePanic p) \<Rightarrow> (Panicked p, s)
      | Inl e \<Rightarrow> (Err e, s))"

text \<open>
  One generated query \<open>q.InsertX\<close>: the row gets the next key of its table
  (\<open>AUTOINCREMENT\<close>); when the driver rejects it, nothing is stored and the error is
  returned.
\<close>

definition next_key :: "string \<Rightarrow> store \<Rightarrow> int" where
  "next_key t s = 1 + int (length (filter (\<lambda>r. table r = t) (rows s)))"

definition insert_row :: "world \<Rightarrow> string \<Rightarrow> params \<Rightarrow> int tx" where
  "insert_row w t p s =
     (let r = \<lparr>table = t, key = next_key t s, params = p\<rparr>
      in case insert_error (sql_driver w) s r of
           Some e \<Rightarrow> (Err e, s\<lparr>rejected := rejected s @ [(r, e)]\<rparr>)
         | None \<Rightarrow> (Ok (key r), s\<lparr>rows := rows s @ [r]\<rparr>))"

text \<open>\<open>tx.ExecContext\<close> of a \<open>CREATE TABLE IF NOT EXISTS\<close> statement.\<close>

definition exec_create :: "world \<Rightarrow> string \<Rightarrow> unit tx" where
  "exec_create w t s =
     (case exec_error (sql_driver w) s t of
        Some e \<Rightarrow> (Err e, s)
      | None \<Rightarrow> (Ok (), if t \<in> set (tables s) then s else s\<lparr>tables := tables s @ [t]\<rparr>))"

subsection \<open>Begin and \<open>txDone\<close>\<close>

text \<open>
  \<open>txDone\<close> runs deferred, on the store \<open>db\<close> the transaction began from and the
  state \<open>t\<close> it reached: with no error it commits, and a failed commit leaves the
  store as it was; with an error it rolls back and joins the rollback's error, if any.
  The history of rejected inserts is kept in both cases.
\<close>

definition txDone :: "world \<Rightarrow> store \<Rightarrow> store \<Rightarrow> error option \<Rightarrow> error option \<times> store" where
  "txDone w db t err =
     (case err of
        None \<Rightarrow>
          (case commit_error (sql_driver w) t of
             None \<Rightarrow> (None, t)
           | Some e \<Rightarrow> (Some e, db\<lparr>rejected := rejected t\<rparr>))
      | Some e \<Rightarrow>
          (Some (Join (e # (case rollback_error (sql_driver w) t of None \<Rightarrow> [] | Some e' \<Rightarrow> [e']))),
           db\<lparr>rejected := rejected t\<rparr>))"

text \<open>
  A function of the shape
  \<open>tx, err := db.Begin(); if err != nil { return err }; defer txDone(tx, &err); body\<close>.
  When the body panics, the deferred \<open>txDone\<close> still runs, and the named result
  \<open>err\<close> it reads is nil at that point, so it commits what the body did so far; the
  panic then goes on to the caller.
\<close>

definition in_transaction :: "world \<Rightarrow> unit tx \<Rightarrow> store \<Rightarrow> unit result \<times> store" where
  "in_transaction w body db =
     (case begin_error (sql_driver w) db of
        Some e \<Rightarrow> (Err e, db)
      | None \<Rightarrow>
          (case body db of
             (Ok u, t) \<Rightarrow>
               (case txDone w db t None of
                  (None, db') \<Rightarrow> (Ok (), db')
                | (Some e, db') \<Rightarrow> (Err e, db'))
           | (Err e, t) \<Rightarrow>
               (case txDone w db t (Some e) of
                  (None, db') \<Rightarrow> (Ok (), db')
                | (Some e', db') \<Rightarrow> (Err e', db'))
           | (Panicked p, t) \<Rightarrow> (Panicked p, snd (txDone w db t None))))"

text \<open>\<open>errors.Is\<close>-style containment: \<open>t\<close> is \<open>e\<close> or sits in \<open>e\<close>'s chain.\<close>

fun wraps :: "error \<Rightarrow> error \<Rightarrow> bool" where
  "wraps (ErrorString s) t = (ErrorString s = t)"
| "wraps (Wrapf msg e) t = (Wrapf msg e = t \<or> wraps e t)"
| "wraps (Join es) t = (Join es = t \<or> (\<exists>e \<in> set es. wraps e t))"
| "wraps (RuntimePanic p) t = (RuntimePanic p = t)"

subsection \<open>Library functions the writer calls\<close>

text \<open>
  \<open>filepath.Base\<close>: the last element of a path, trailing separators removed; \<open>.\<close>
  for the empty path, one separator for a path of separators only.
\<close>

definition filepath_Base :: "string \<Rightarrow> string" where
  "filepath_Base p =
     (if p = [] then ''.''
      else let q = rev (dropWhile (\<lambda>c. c = CHR ''/'') (rev p))
           in if q = [] then ''/'' else rev (takeWhile (\<lambda>c. c \<noteq> CHR ''/'') (rev q)))"

text \<open>
  The verb \<open>%q\<close> on a string (\<open>strconv.Quote\<close>): double quotes around the text, with
  Go's escapes for the quote, the backslash and the control characters; bytes from
  0x80 on are copied, as for printable UTF-8 text.
\<close>

definition quote_escape :: "char \<Rightarrow> string" where
  "quote_escape c =
     (if c = CHR 0x22 then [CHR 0x5C, CHR 0x22]
      else if c = CHR 0x5C then [CHR 0x5C, CHR 0x5C]
      else if c = CHR 0x07 then [CHR 0x5C, CHR ''a'']
      else if c = CHR 0x08 then [CHR 0x5C, CHR ''b'']
      else if c = CHR 0x0C then [CHR 0x5C, CHR ''f'']
      else if c = CHR 0x0A then [CHR 0x5C, CHR ''n'']
      else if c = CHR 0x0D then [CHR 0x5C, CHR ''r'']
      else if c = CHR 0x09 then [CHR 0x5C, CHR ''t'']
      else if c = CHR 0x0B then [CHR 0x5C, CHR ''v'']
      else if of_char c < (0x20 :: nat) \<or> c = CHR 0x7F
        then [CHR 0x5C, CHR ''x'', hex_digit (of_char c div 16), hex_digit (of_char c mod 16)]
      else [c])"

definition strconv_Quote :: "string \<Rightarrow> string" where
  "strconv_Quote s = [CHR 0x22] @ concat (map quote_escape s) @ [CHR 0x22]"

definition TrimPrefix :: "string \<Rightarrow> string \<Rightarrow> string" where
  "TrimPrefix s pre = (if take (length pre) s = pre then drop (length pre) s else s)"

text \<open>\<open>FlatProcessor.MarshalAttributes\<close>, with \<open>json.Marshal\<close> as a parameter.\<close>

definition MarshalAttributes :: "(gval \<Rightarrow> error + string) \<Rightarrow> FlatProcessor \<Rightarrow> error + string" where
  "MarshalAttributes marshal fp =
     (if length (FlatProcessor.Attributes fp) = 0 then Inr []
      else case marshal (GMap (FlatProcessor.Attributes fp)) of
             Inl err \<Rightarrow> Inl (Wrapf ''failed to marshal processor attributes'' err)
           | Inr data \<Rightarrow> Inr data)"

subsection \<open>The package as the document provider hands it over\<close>

text \<open>
  \<open>fleetpkg.Integration\<close> and what it owns, with the attributes that
  \<open>insertPackage\<close> branches on or that name a row. A Go map that the source ranges
  over is the list of its entries in the order of that iteration. \<open>FlatFields\<close> is
  the result of \<open>fleetpkg.FlattenFields\<close> on the owner's fields.
\<close>

record Image =
  Src :: string
  Title :: string

record Input =
  Type :: string
  Title :: string
  Vars :: "Var list"

record PolicyTemplate =
  Name :: string
  Categories :: "string list"
  DataStreams :: "string list"
  Icons :: "Image list"
  Screenshots :: "Image list"
  Vars :: "Var list"
  Inputs :: "Input list"

record Stream =
  Input :: string
  Title :: string
  Vars :: "Var list"

record Pipeline =
  Description :: string
  Processors :: "Processor option list"
  OnFailure :: "Processor option list"
  Path :: string

record SampleEvent =
  Event :: gval
  Path :: string

record DataStream =
  Path :: string
  Streams :: "Stream list"
  FlatFields :: "error + Field list"
  Pipelines :: "(string \<times> Pipeline) list"
  SampleEvent :: "SampleEvent option"

record Transform =
  Path :: string
  DestAliases :: "string list"
  FlatFields :: "error + Field list"

record Change =
  Description :: string
  Type :: string
  Link :: string

record Release =
  Version :: string
  Changes :: "Change list"
  Path :: string

record Changelog =
  Releases :: "Release list"
  Path :: string

record BuildManifest =
  ECSReference :: string
  Path :: string

record Manifest =
  Name :: string
  Version :: string
  Categories :: "string list"
  Icons :: "Image list"
  Screenshots :: "Image list"
  Discovery :: "string list option"
  Vars :: "Var list"
  PolicyTemplates :: "PolicyTemplate list"
  Path :: string

record Integration =
  Manifest :: Manifest
  Build :: "BuildManifest option"
  DataStreams :: "DataStream list"
  Transforms :: "Transform list"
  Changelog :: Changelog
  Path :: string

subsection \<open>\<open>insertPackage\<close>, section by section\<close>

definition insertManifest :: "world \<Rightarrow> Integration \<Rightarrow> int tx" where
  "insertManifest w pkg =
     insert_row w ''integrations''
       (Columns [] [Manifest.Name (Manifest pkg), Manifest.Path (Manifest pkg)])"

definition insertVar :: "world \<Rightarrow> Var \<Rightarrow> int tx" where
  "insertVar w v =
     and_then (insert_row w ''vars'' (VarParams (insertVar_params (json_encoder w) v))) (\<lambda>varID.
     seq (for_each (Options v) (\<lambda>opt.
            insert_row w ''var_options'' (Columns [varID] [VarOption.Value opt, VarOption.Text opt])))
         (ok varID))"

text \<open>
  The loops over the variables of an owner (the package, a policy template, one of its
  inputs, a stream): \<open>insertVar\<close>, then the row of the owner's join table.
\<close>

definition insert_vars :: "world \<Rightarrow> string \<Rightarrow> int \<Rightarrow> Var list \<Rightarrow> unit tx" where
  "insert_vars w join_table ownerID vs =
     for_each vs (\<lambda>v.
       and_then (insertVar w v) (\<lambda>varID.
       insert_row w join_table (Columns [ownerID, varID] [])))"

text \<open>The loops over icons and over screenshots.\<close>

definition insert_images :: "world \<Rightarrow> string \<Rightarrow> int \<Rightarrow> Image list \<Rightarrow> unit tx" where
  "insert_images w t ownerID images =
     for_each images (\<lambda>image. insert_row w t (Columns [ownerID] [Src image, Image.Title image]))"

definition insertPolicyTemplate :: "world \<Rightarrow> int \<Rightarrow> PolicyTemplate \<Rightarrow> int tx" where
  "insertPolicyTemplate w integID pt =
     insert_row w ''policy_templates'' (Columns [integID] [PolicyTemplate.Name pt])"

definition policy_template :: "world \<Rightarrow> int \<Rightarrow> PolicyTemplate \<Rightarrow> unit tx" where
  "policy_template w integID pt =
     and_then (insertPolicyTemplate w integID pt) (\<lambda>ptID.
     seq (for_each (PolicyTemplate.Categories pt) (\<lambda>cat.
            insert_row w ''policy_template_categories'' (Columns [ptID] [cat])))
    (seq (for_each (PolicyTemplate.DataStreams pt) (\<lambda>dsName.
            insert_row w ''policy_template_data_streams'' (Columns [ptID] [dsName])))
    (seq (insert_images w ''policy_template_icons'' ptID (PolicyTemplate.Icons pt))
    (seq (insert_images w ''policy_template_screenshots'' ptID (PolicyTemplate.Screenshots pt))
    (seq (insert_vars w ''policy_template_vars'' ptID (PolicyTemplate.Vars pt))
         (for_each (Inputs pt) (\<lambda>input.
            and_then (insert_row w ''policy_template_inputs''
                        (Columns [ptID] [Input.Type input, Input.Title input])) (\<lambda>ptInputID.
            insert_vars w ''policy_template_input_vars'' ptInputID (Input.Vars input)))))))))"

text \<open>
  \<open>externalDef\<close>: looked up only for a field that refers to ECS in a package whose
  build manifest names an ECS reference; the error of \<open>ecs.Lookup\<close> is dropped.
\<close>

definition external_definition :: "world \<Rightarrow> Integration \<Rightarrow> Field \<Rightarrow> ecs_Field option" where
  "external_definition w pkg f =
     (case Build pkg of
        None \<Rightarrow> None
      | Some build \<Rightarrow>
          if Field.External f = ''ecs'' \<and> ECSReference build \<noteq> ''''
          then ecs_Lookup w (Field.Name f) (TrimPrefix (ECSReference build) ''git@'')
          else None)"

definition insertField :: "world \<Rightarrow> Field \<Rightarrow> ecs_Field option \<Rightarrow> int tx" where
  "insertField w f externalDef =
     insert_row w ''fields'' (FieldParams (insertField_params (json_encoder w) f externalDef))"

text \<open>
  \<open>flat, err := fleetpkg.FlattenFields(...)\<close> and the loop over \<open>flat\<close>; \<open>join\<close> is
  the insert into the owner's join table.
\<close>

definition insert_fields ::
  "world \<Rightarrow> Integration \<Rightarrow> error + Field list \<Rightarrow> (Field \<Rightarrow> int \<Rightarrow> int tx) \<Rightarrow> unit tx" where
  "insert_fields w pkg flattened join =
     and_then (call flattened) (\<lambda>flat.
     for_each flat (\<lambda>f.
       and_then (insertField w f (external_definition w pkg f)) (\<lambda>fieldID. join f fieldID)))"

text \<open>
  The processors of one list of a pipeline: flatten, then marshal and insert each
  record. \<open>kind\<close> is the empty text for \<open>pipeline.Processors\<close> and \<open>on_failure \<close> for
  the pipeline's global failure branch, as the source's messages have it.
\<close>

definition insert_processors ::
  "world \<Rightarrow> int \<Rightarrow> string \<Rightarrow> string \<Rightarrow> Processor option list \<Rightarrow> string \<Rightarrow> unit tx" where
  "insert_processors w pipelineID name kind processors basePath =
     and_then (wrapped (''failed to flatten '' @ kind @ ''processors for pipeline '' @ name)
                 (call (FlattenProcessors processors basePath))) (\<lambda>flat.
     for_each flat (\<lambda>proc.
       and_then (wrapped (''failed to marshal '' @ kind @ ''processor attributes'')
                   (call (MarshalAttributes (json_encoder w) proc))) (\<lambda>attrs.
       wrapped (''failed to insert '' @ kind @ ''processor '' @ FlatProcessor.Type proc @ '' at ''
                  @ JSONPointer proc)
         (insert_row w ''ingest_processors''
            (IngestProcessorParams
               \<lparr>IngestPipelineID = pipelineID,
                InsertIngestProcessorParams.Type = FlatProcessor.Type proc,
                InsertIngestProcessorParams.Attributes = sqlStringEmtpyIsNull attrs,
                JsonPointer = JSONPointer proc,
                InsertIngestProcessorParams.FilePath = FlatProcessor.FilePath proc,
                InsertIngestProcessorParams.LineNumber = FlatProcessor.Line proc,
                InsertIngestProcessorParams.Col = FlatProcessor.Column proc\<rparr>)))))"

definition ingest_pipeline :: "world \<Rightarrow> int \<Rightarrow> string \<times> Pipeline \<Rightarrow> unit tx" where
  "ingest_pipeline w dsID entry =
     (case entry of (name, pipeline) \<Rightarrow>
        and_then (insert_row w ''ingest_pipelines'' (Columns [dsID] [name, Pipeline.Path pipeline]))
          (\<lambda>pipelineID.
        seq (insert_processors w pipelineID name [] (Processors pipeline) ''/processors'')
            (if length (Pipeline.OnFailure pipeline) > 0
             then insert_processors w pipelineID name ''on_failure '' (Pipeline.OnFailure pipeline)
                    ''/on_failure''
             else ok ())))"

definition insertDataStream :: "world \<Rightarrow> int \<Rightarrow> DataStream \<Rightarrow> int tx" where
  "insertDataStream w integID ds =
     insert_row w ''data_streams''
       (Columns [integID] [filepath_Base (DataStream.Path ds), DataStream.Path ds])"

definition insertStream :: "world \<Rightarrow> int \<Rightarrow> Stream \<Rightarrow> int tx" where
  "insertStream w dsID s =
     insert_row w ''streams'' (Columns [dsID] [Stream.Input s, Stream.Title s])"

text \<open>
  One data stream. The fields are flattened and inserted inside the loop over the
  streams, once per stream, as the source has it.
\<close>

definition data_stream :: "world \<Rightarrow> Integration \<Rightarrow> int \<Rightarrow> DataStream \<Rightarrow> unit tx" where
  "data_stream w pkg integID ds =
     and_then (insertDataStream w integID ds) (\<lambda>dsID.
     seq (for_each (Streams ds) (\<lambda>s.
            and_then (insertStream w dsID s) (\<lambda>sID.
            seq (insert_vars w ''stream_vars'' sID (Stream.Vars s))
                (insert_fields w pkg (DataStream.FlatFields ds) (\<lambda>f fieldID.
                   insert_row w ''data_stream_fields''
                     (Columns [dsID, fieldID] [filepath_Base (Field.Path f)]))))))
    (seq (for_each (Pipelines ds) (ingest_pipeline w dsID))
         (case SampleEvent ds of
            None \<Rightarrow> ok ()
          | Some ev \<Rightarrow>
              seq (insert_row w ''sample_events'' (Columns [dsID] [SampleEvent.Path ev])) (ok ()))))"

definition insertTransform :: "world \<Rightarrow> int \<Rightarrow> Transform \<Rightarrow> int tx" where
  "insertTransform w integID t =
     and_then (insert_row w ''transforms''
                 (Columns [integID] [filepath_Base (Transform.Path t), Transform.Path t]))
       (\<lambda>transformID.
     seq (for_each (DestAliases t) (\<lambda>alias.
            insert_row w ''transform_dest_aliases'' (Columns [transformID] [alias])))
         (ok transformID))"

definition transform :: "world \<Rightarrow> Integration \<Rightarrow> int \<Rightarrow> Transform \<Rightarrow> unit tx" where
  "transform w pkg integID t =
     and_then (insertTransform w integID t) (\<lambda>transformID.
     insert_fields w pkg (Transform.FlatFields t) (\<lambda>f fieldID.
       insert_row w ''transform_fields'' (Columns [transformID, fieldID] [])))"

definition changelog :: "world \<Rightarrow> int \<Rightarrow> Changelog \<Rightarrow> unit tx" where
  "changelog w integID cl =
     (if Changelog.Path cl \<noteq> '''' then
        and_then (insert_row w ''changelogs'' (Columns [integID] [Changelog.Path cl]))
          (\<lambda>changelogID.
        for_each (Releases cl) (\<lambda>release.
          and_then (insert_row w ''releases''
                      (Columns [changelogID] [Release.Version release, Release.Path release]))
            (\<lambda>releaseID.
          for_each (Changes release) (\<lambda>change.
            insert_row w ''changes''
              (Columns [releaseID]
                 [Change.Description change, Change.Type change, Link change])))))
      else ok ())"

text \<open>The statements of \<open>insertPackage\<close> between \<open>defer txDone\<close> and \<open>return nil\<close>.\<close>

definition insertPackage_body :: "world \<Rightarrow> Integration \<Rightarrow> unit tx" where
  "insertPackage_body w pkg =
     and_then (insertManifest w pkg) (\<lambda>integID.
     seq (for_each (Manifest.Categories (Manifest pkg)) (\<lambda>cat.
            insert_row w ''integration_categories'' (Columns [integID] [cat])))
    (seq (insert_images w ''integration_icons'' integID (Manifest.Icons (Manifest pkg)))
    (seq (insert_images w ''integration_screenshots'' integID (Manifest.Screenshots (Manifest pkg)))
    (seq (case Discovery (Manifest pkg) of
            None \<Rightarrow> ok ()
          | Some discovery \<Rightarrow>
              for_each discovery (\<lambda>name.
                insert_row w ''discovery_fields'' (Columns [integID] [name])))
    (seq (case Build pkg of
            None \<Rightarrow> ok ()
          | Some build \<Rightarrow>
              seq (insert_row w ''build_manifests''
                     (Columns [integID] [ECSReference build, BuildManifest.Path build]))
                  (ok ()))
    (seq (insert_vars w ''integration_vars'' integID (Manifest.Vars (Manifest pkg)))
    (seq (for_each (PolicyTemplates (Manifest pkg)) (policy_template w integID))
    (seq (for_each (Integration.DataStreams pkg) (data_stream w pkg integID))
    (seq (for_each (Transforms pkg) (transform w pkg integID))
         (changelog w integID (Changelog pkg)))))))))))"

definition insertPackage :: "world \<Rightarrow> store \<Rightarrow> Integration \<Rightarrow> unit result \<times> store" where
  "insertPackage w db pkg = in_transaction w (insertPackage_body w pkg) db"

subsection \<open>\<open>createTables\<close> and \<open>WritePackages\<close>\<close>

definition createTables :: "world \<Rightarrow> store \<Rightarrow> unit result \<times> store" where
  "createTables w db =
     in_transaction w
       (for_each (Creates w) (\<lambda>t.
          wrapped (''failed creating table: '' @ strconv_Quote t) (exec_create w t)))
       db"

text \<open>The loop \<open>for _, in := range pkgs\<close> of \<open>WritePackages\<close>.\<close>

fun write_loop :: "world \<Rightarrow> store \<Rightarrow> Integration list \<Rightarrow> unit result \<times> store" where
  "write_loop w db [] = (Ok (), db)"
| "write_loop w db (pkg # pkgs) =
     (case insertPackage w db pkg of
        (Ok u, db') \<Rightarrow> write_loop w db' pkgs
      | (Err err, db') \<Rightarrow>
          (Err (Wrapf (''failed inserting '' @ strconv_Quote (filepath_Base (Integration.Path pkg)))
                  err), db')
      | (Panicked p, db') \<Rightarrow> (Panicked p, db'))"

definition WritePackages :: "world \<Rightarrow> store \<Rightarrow> Integration list \<Rightarrow> unit result \<times> store" where
  "WritePackages w db pkgs =
     (case createTables w db of
        (Ok u, db') \<Rightarrow> write_loop w db' pkgs
      | (Err err, db') \<Rightarrow> (Err (Wrapf ''failed creating tables'' err), db')
      | (Panicked p, db') \<Rightarrow> (Panicked p, db'))"

subsection \<open>Example world and packages\<close>

text \<open>
  A driver that rejects every \<open>ingest_processors\<close> row of type \<open>remove\<close> (as a
  constraint would) and accepts everything else, and one that accepts everything.
\<close>

definition rejects_remove :: "store \<Rightarrow> row \<Rightarrow> error option" where
  "rejects_remove s r =
     (case params r of
        IngestProcessorParams p \<Rightarrow>
          if InsertIngestProcessorParams.Type p = ''remove''
          then Some (ErrorString ''constraint failed: CHECK constraint failed (275)'')
          else None
      | other \<Rightarrow> None)"

definition example_world :: world where
  "example_world =
     \<lparr>sql_driver =
        \<lparr>begin_error = (\<lambda>s. None), exec_error = (\<lambda>s t. None),
         insert_error = rejects_remove,
         commit_error = (\<lambda>s. None), rollback_error = (\<lambda>s. None)\<rparr>,
      json_encoder = json_Marshal,
      ecs_Lookup = (\<lambda>name version. None),
      Creates = [''CREATE TABLE IF NOT EXISTS integrations (id INTEGER PRIMARY KEY)'']\<rparr>"

definition accepting_world :: world where
  "accepting_world =
     example_world\<lparr>sql_driver := (sql_driver example_world)\<lparr>insert_error := (\<lambda>s r. None)\<rparr>\<rparr>"

definition empty_store :: store where
  "empty_store = \<lparr>tables = [], rows = [], rejected = []\<rparr>"

text \<open>
  The package \<open>nginx\<close> with one data stream and one pipeline, whose processors are
  the example pipeline of the flattener.
\<close>

definition example_package :: "Processor option list \<Rightarrow> Integration" where
  "example_package processors =
     \<lparr>Manifest =
        \<lparr>Manifest.Name = ''nginx'', Manifest.Version = ''1.2.0'', Manifest.Categories = [],
         Manifest.Icons = [], Manifest.Screenshots = [], Discovery = None,
         Manifest.Vars = [], PolicyTemplates = [],
         Manifest.Path = ''packages/nginx/manifest.yml''\<rparr>,
      Build = None,
      Integration.DataStreams =
        [\<lparr>DataStream.Path = ''packages/nginx/data_stream/access'', Streams = [],
          DataStream.FlatFields = Inr [],
          Pipelines =
            [(''default'',
              \<lparr>Pipeline.Description = ''Pipeline for access logs'',
               Processors = processors, Pipeline.OnFailure = [],
               Pipeline.Path =
                 ''packages/nginx/data_stream/access/elasticsearch/ingest_pipeline/default.yml''\<rparr>)],
          SampleEvent = None\<rparr>],
      Transforms = [],
      Changelog = \<lparr>Releases = [], Changelog.Path = ''''\<rparr>,
      Integration.Path = ''packages/nginx''\<rparr>"

text \<open>A processor with an attribute that \<open>json.Marshal\<close> rejects.\<close>

definition example_nan :: Processor where
  "example_nan =
     Processor ''set'' (Some [(''field'', GString ''ratio''), (''value'', GFloatNaN)]) []
       ''default.yml'' 11 5"

subsection \<open>Reading the history\<close>

text \<open>
  What a statement may do to the history of rejected inserts: nothing when it returns
  a value or panics; when it returns an error, nothing, or it adds the one insert that
  was rejected, and then the error it returns wraps the driver's error.
\<close>

definition outcome_tracks :: "store \<Rightarrow> 'a result \<times> store \<Rightarrow> bool" where
  "outcome_tracks s out =
     (case out of
        (Ok x, s') \<Rightarrow> rejected s' = rejected s
      | (Err err, s') \<Rightarrow>
          rejected s' = rejected s \<or> (\<exists>r e. rejected s' = rejected s @ [(r, e)] \<and> wraps err e)
      | (Panicked p, s') \<Rightarrow> rejected s' = rejected s)"

definition tracks :: "'a tx \<Rightarrow> bool" where
  "tracks m = (\<forall>s. outcome_tracks s (m s))"

text \<open>A statement that inserts nothing leaves the history as it is.\<close>

definition inserts_nothing :: "'a tx \<Rightarrow> bool" where
  "inserts_nothing m = (\<forall>s. rejected (snd (m s)) = rejected s)"

section \<open>Properties of the flattener\<close>

lemma onFailureJSON_append:
  "onFailureJSON ofs (acc1 @ acc2) = map_sum id ((@) acc1) (onFailureJSON ofs acc2)"
proof (induction ofs arbitrary: acc2)
  case Nil
  show ?case by simp
next
  case (Cons a ofs)
  show ?case
  proof (cases a)
    case None
    then show ?thesis by simp
  next
    case (Some f)
    then show ?thesis
      using Cons.IH [of "acc2 @ [GMap [(Processor.Type f, map_value (Processor.Attributes f))]]"]
      by simp
  qed
qed

lemma onFailureJSON_eq:
  "onFailureJSON ofs [] =
     (if None \<in> set ofs then Inl nil_panic else Inr (map (\<lambda>q. summary_entry (the q)) ofs))"
proof (induction ofs)
  case Nil
  show ?case by simp
next
  case (Cons a ofs)
  show ?case
  proof (cases a)
    case None
    then show ?thesis by simp
  next
    case (Some f)
    have "onFailureJSON (Some f # ofs) [] =
        map_sum id ((@) [summary_entry f]) (onFailureJSON ofs [])"
      using onFailureJSON_append [of ofs "[summary_entry f]" "[]"]
      by (simp add: summary_entry_def)
    then show ?thesis
      using Some Cons.IH by simp
  qed
qed

lemma flatten_loop_append:
  "flatten_loop i ps b (acc1 @ acc2) = map_sum id ((@) acc1) (flatten_loop i ps b acc2)"
proof (induction ps arbitrary: i acc2)
  case Nil
  show ?case by simp
next
  case (Cons a ps)
  show ?case
  proof (cases a)
    case None
    then show ?thesis using Cons.IH by simp
  next
    case (Some p)
    then show ?thesis
      using Cons.IH by (simp add: Let_def split: sum.splits)
  qed
qed

lemma flatten_loop_acc:
  "flatten_loop i ps b acc = map_sum id ((@) acc) (flatten_loop i ps b [])"
  using flatten_loop_append [of i ps b acc "[]"] by simp

lemma flatten_loop_Some:
  "flatten_loop i (Some p # ps) b [] =
     (if Processor.OnFailure p = [] then map_sum id ((@) [own_record b i p]) (flatten_loop (Suc i) ps b [])
      else case flatten_loop 0 (Processor.OnFailure p) (locator b i (Processor.Type p) @ ''/on_failure'') [] of
        Inl e \<Rightarrow> Inl e
      | Inr sub \<Rightarrow>
          if None \<in> set (Processor.OnFailure p) then Inl nil_panic
          else map_sum id ((@) (sub @ [own_record b i p])) (flatten_loop (Suc i) ps b []))"
proof -
  have snoc: "flatten_loop (Suc i) ps b (acc @ [r]) =
      map_sum id ((@) (acc @ [r])) (flatten_loop (Suc i) ps b [])" for acc r
    by (rule flatten_loop_acc)
  have single: "flatten_loop (Suc i) ps b [r] =
      map_sum id ((@) [r]) (flatten_loop (Suc i) ps b [])" for r
    by (rule flatten_loop_acc)
  show ?thesis
    by (simp add: Let_def own_record_def locator_def onFailureJSON_eq snoc single
        split: sum.splits)
qed





lemma flatten_loop_cases:
  "(branches_nil_free ps \<longrightarrow> (\<exists>rs. flatten_loop i ps b [] = Inr rs)) \<and>
   (\<not> branches_nil_free ps \<longrightarrow> flatten_loop i ps b [] = Inl nil_panic)"
proof (induction ps arbitrary: i b rule: branches_nil_free.induct)
  case 1
  show ?case by simp
next
  case (2 ps)
  then show ?case by simp
next
  case (3 p ps)
  let ?loc = "locator b i (Processor.Type p) @ ''/on_failure''"
  note tail = "3.IH"(2) [of "Suc i" b]
  note sub = "3.IH"(1) [of 0 ?loc]
  show ?case
  proof (cases "Processor.OnFailure p = []")
    case True
    with tail show ?thesis
      by (auto simp del: flatten_loop.simps simp add: flatten_loop_Some)
  next
    case False
    with tail sub show ?thesis
      by (auto simp del: flatten_loop.simps simp add: flatten_loop_Some)
  qed
qed


lemma fmt_d_0: "fmt_d 0 = ''0''"
  by (simp add: fmt_d.simps)

lemma fmt_d_1: "fmt_d (Suc 0) = ''1''"
  by (simp add: fmt_d.simps)

lemma FlattenProcessors_returns_iff:
  "(\<exists>rs. FlattenProcessors ps b = Inr rs) \<longleftrightarrow> branches_nil_free ps"
  using flatten_loop_cases [of ps 0 b] by (auto simp: FlattenProcessors_def)

lemma FlattenProcessors_error_is_panic:
  "FlattenProcessors ps b = Inl e \<Longrightarrow> e = nil_panic"
  using flatten_loop_cases [of ps 0 b] by (auto simp: FlattenProcessors_def)





section \<open>Properties of the projector\<close>

lemma merge_type_sel:
  "InsertFieldParams.Type (merge_type d p) =
     (if InsertFieldParams.Type p = None \<and> DataType d \<noteq> '''' then Some (DataType d)
      else InsertFieldParams.Type p)"
  "InsertFieldParams.Pattern (merge_type d p) = InsertFieldParams.Pattern p"
  "InsertFieldParams.Normalize (merge_type d p) = InsertFieldParams.Normalize p"
  "InsertFieldParams.Normalizer (merge_type d p) = InsertFieldParams.Normalizer p"
  "InsertFieldParams.Description (merge_type d p) = InsertFieldParams.Description p"
  by (simp_all add: merge_type_def sqlStringEmtpyIsNull_def)

lemma merge_pattern_sel:
  "InsertFieldParams.Type (merge_pattern d p) = InsertFieldParams.Type p"
  "InsertFieldParams.Pattern (merge_pattern d p) =
     (if InsertFieldParams.Pattern p = None \<and> ecs_Field.Pattern d \<noteq> ''''
      then Some (ecs_Field.Pattern d) else InsertFieldParams.Pattern p)"
  "InsertFieldParams.Normalize (merge_pattern d p) = InsertFieldParams.Normalize p"
  "InsertFieldParams.Normalizer (merge_pattern d p) = InsertFieldParams.Normalizer p"
  "InsertFieldParams.Description (merge_pattern d p) = InsertFieldParams.Description p"
  by (simp_all add: merge_pattern_def sqlStringEmtpyIsNull_def)

lemma merge_normalize_sel:
  "InsertFieldParams.Type (merge_normalize marshal d p) = InsertFieldParams.Type p"
  "InsertFieldParams.Pattern (merge_normalize marshal d p) = InsertFieldParams.Pattern p"
  "InsertFieldParams.Normalize (merge_normalize marshal d p) =
     (if InsertFieldParams.Normalizer p = None \<and> Array d
      then jsonNullString marshal (GSlice [GString ''array''])
      else InsertFieldParams.Normalize p)"
  "InsertFieldParams.Normalizer (merge_normalize marshal d p) = InsertFieldParams.Normalizer p"
  "InsertFieldParams.Description (merge_normalize marshal d p) = InsertFieldParams.Description p"
  by (simp_all add: merge_normalize_def strings_any_def)

lemma merge_description_sel:
  "InsertFieldParams.Type (merge_description d p) = InsertFieldParams.Type p"
  "InsertFieldParams.Pattern (merge_description d p) = InsertFieldParams.Pattern p"
  "InsertFieldParams.Normalize (merge_description d p) = InsertFieldParams.Normalize p"
  "InsertFieldParams.Normalizer (merge_description d p) = InsertFieldParams.Normalizer p"
  "InsertFieldParams.Description (merge_description d p) =
     (if InsertFieldParams.Description p = None \<and> ecs_Field.Description d \<noteq> ''''
      then Some (ecs_Field.Description d) else InsertFieldParams.Description p)"
  by (simp_all add: merge_description_def sqlStringEmtpyIsNull_def)

lemma field_params_sel:
  "InsertFieldParams.Type (field_params marshal f) = sqlStringEmtpyIsNull (Field.Type f)"
  "InsertFieldParams.Pattern (field_params marshal f) = sqlStringEmtpyIsNull (Field.Pattern f)"
  "InsertFieldParams.Normalize (field_params marshal f) =
     jsonNullString marshal (strings_any (Field.Normalize f))"
  "InsertFieldParams.Normalizer (field_params marshal f) =
     sqlStringEmtpyIsNull (Field.Normalizer f)"
  "InsertFieldParams.Description (field_params marshal f) =
     sqlStringEmtpyIsNull (Field.Description f)"
  by (simp_all add: field_params_def)

lemma jsonNullString_empty_slice: "jsonNullString marshal (GSlice []) = None"
  by (simp add: jsonNullString_def IsValid_def)

lemma jsonNullString_nil: "jsonNullString marshal GNil = None"
  by (simp add: jsonNullString_def IsValid_def)

lemma json_Marshal_strings:
  "json_Marshal (GSlice [GString ''array'']) = Inr ''[\"array\"]''"
  "json_Marshal (GSlice [GString ''custom'']) = Inr ''[\"custom\"]''"
  by code_simp+

lemmas merge_sel = merge_type_sel merge_pattern_sel merge_normalize_sel merge_description_sel

text \<open>
  The three attributes whose guard tests the attribute itself are never overwritten: a
  locally declared type, pattern or description is the one stored, whatever the
  external definition supplies.
\<close>

lemma insertField_keeps_local_type:
  "Field.Type f \<noteq> '''' \<Longrightarrow>
   InsertFieldParams.Type (insertField_params marshal f externalDef) = Some (Field.Type f)"
  by (cases externalDef)
    (simp_all add: insertField_params_def Let_def merge_sel field_params_sel sqlStringEmtpyIsNull_def)

lemma insertField_keeps_local_pattern:
  "Field.Pattern f \<noteq> '''' \<Longrightarrow>
   InsertFieldParams.Pattern (insertField_params marshal f externalDef) = Some (Field.Pattern f)"
  by (cases externalDef)
    (simp_all add: insertField_params_def Let_def merge_sel field_params_sel sqlStringEmtpyIsNull_def)

lemma insertField_keeps_local_description:
  "Field.Description f \<noteq> '''' \<Longrightarrow>
   InsertFieldParams.Description (insertField_params marshal f externalDef) =
     Some (Field.Description f)"
  by (cases externalDef)
    (simp_all add: insertField_params_def Let_def merge_sel field_params_sel sqlStringEmtpyIsNull_def)

lemma insertField_backfills_type:
  "Field.Type f = '''' \<Longrightarrow>
   InsertFieldParams.Type (insertField_params marshal f (Some d)) =
     sqlStringEmtpyIsNull (DataType d)"
  by (simp add: insertField_params_def Let_def merge_sel field_params_sel sqlStringEmtpyIsNull_def)

text \<open>
  The normalization column is guarded by the validity of another column,
  \<open>Normalizer\<close>: it is set to \<open>["array"]\<close> exactly when the resolved definition is an
  array and the field declares no normalizer, whatever normalization the field declares.
\<close>

lemma insertField_normalize:
  "InsertFieldParams.Normalize (insertField_params marshal f (Some d)) =
     (if Field.Normalizer f = '''' \<and> Array d
      then jsonNullString marshal (GSlice [GString ''array''])
      else jsonNullString marshal (strings_any (Field.Normalize f)))"
  by (simp add: insertField_params_def Let_def merge_sel field_params_sel sqlStringEmtpyIsNull_def)

lemma insertField_unresolved_normalize:
  "InsertFieldParams.Normalize (insertField_params marshal f None) =
     jsonNullString marshal (strings_any (Field.Normalize f))"
  by (simp add: insertField_params_def Let_def field_params_sel)

section \<open>Properties of the writer\<close>

lemma wraps_refl: "wraps e e"
  by (cases e) simp_all

lemma tracks_ok: "tracks (ok x)"
  by (simp add: tracks_def outcome_tracks_def ok_def)

lemma tracks_call: "tracks (call r)"
  by (simp add: tracks_def outcome_tracks_def call_def split: sum.splits error.splits)

lemma tracks_insert_row: "tracks (insert_row w t p)"
  by (auto simp: tracks_def outcome_tracks_def insert_row_def Let_def wraps_refl
      split: option.splits)

lemma tracks_and_then:
  assumes "tracks m" and "\<And>x. tracks (f x)"
  shows "tracks (and_then m f)"
  unfolding tracks_def
proof
  fix s
  obtain r1 s1 where m: "m s = (r1, s1)" by (cases "m s")
  from assms(1) have t1: "outcome_tracks s (r1, s1)"
    unfolding tracks_def using m by metis
  show "outcome_tracks s (and_then m f s)"
  proof (cases r1)
    case (Ok x)
    obtain r2 s2 where f: "f x s1 = (r2, s2)" by (cases "f x s1")
    from assms(2) [of x] have t2: "outcome_tracks s1 (r2, s2)"
      unfolding tracks_def using f by metis
    from t1 Ok have "rejected s1 = rejected s"
      by (simp add: outcome_tracks_def)
    with t2 have "outcome_tracks s (r2, s2)"
      by (cases r2) (simp_all add: outcome_tracks_def)
    with m Ok f show ?thesis
      by (simp add: and_then_def)
  next
    case (Err e)
    with m t1 show ?thesis by (simp add: and_then_def outcome_tracks_def)
  next
    case (Panicked p)
    with m t1 show ?thesis by (simp add: and_then_def outcome_tracks_def)
  qed
qed

lemma tracks_seq: "tracks m \<Longrightarrow> tracks n \<Longrightarrow> tracks (seq m n)"
  by (simp add: seq_def tracks_and_then)

lemma tracks_for_each: "(\<And>x. tracks (f x)) \<Longrightarrow> tracks (for_each xs f)"
  by (induction xs) (simp_all add: tracks_ok tracks_seq)

lemma tracks_wrapped: "tracks m \<Longrightarrow> tracks (wrapped msg m)"
  unfolding tracks_def
proof
  fix s
  assume a: "\<forall>s. outcome_tracks s (m s)"
  obtain r1 s1 where m: "m s = (r1, s1)" by (cases "m s")
  from a have "outcome_tracks s (r1, s1)" using m by metis
  with m show "outcome_tracks s (wrapped msg m s)"
    by (cases r1) (auto simp: wrapped_def outcome_tracks_def)
qed

lemmas tracks_intros =
  tracks_ok tracks_call tracks_insert_row tracks_and_then tracks_seq tracks_for_each
  tracks_wrapped

lemma tracks_insertVar: "tracks (insertVar w v)"
  unfolding insertVar_def by (intro tracks_intros)

lemma tracks_insert_vars: "tracks (insert_vars w t ownerID vs)"
  unfolding insert_vars_def by (intro tracks_intros tracks_insertVar)

lemma tracks_insert_images: "tracks (insert_images w t ownerID images)"
  unfolding insert_images_def by (intro tracks_intros)

lemma tracks_policy_template: "tracks (policy_template w integID pt)"
  unfolding policy_template_def insertPolicyTemplate_def
  by (intro tracks_intros tracks_insert_vars tracks_insert_images)

lemma tracks_insert_fields:
  "(\<And>f fieldID. tracks (join f fieldID)) \<Longrightarrow> tracks (insert_fields w pkg flattened join)"
  unfolding insert_fields_def insertField_def by (intro tracks_intros)

lemma tracks_insert_processors: "tracks (insert_processors w pipelineID name kind ps basePath)"
  unfolding insert_processors_def by (intro tracks_intros)

lemma tracks_ingest_pipeline: "tracks (ingest_pipeline w dsID entry)"
  unfolding ingest_pipeline_def
  by (cases entry) (auto intro!: tracks_intros tracks_insert_processors)

lemma tracks_data_stream: "tracks (data_stream w pkg integID ds)"
  unfolding data_stream_def insertDataStream_def insertStream_def
  by (cases "SampleEvent ds")
    (auto intro!: tracks_intros tracks_insert_vars tracks_insert_fields tracks_ingest_pipeline)

lemma tracks_transform: "tracks (transform w pkg integID t)"
  unfolding transform_def insertTransform_def
  by (intro tracks_intros tracks_insert_fields)

lemma tracks_changelog: "tracks (changelog w integID cl)"
  unfolding changelog_def by (auto intro!: tracks_intros)

text \<open>Every error path of \<open>insertPackage\<close> hands the driver's error on.\<close>

lemma tracks_insertPackage_body: "tracks (insertPackage_body w pkg)"
  unfolding insertPackage_body_def insertManifest_def
  by (cases "Discovery (Manifest pkg)"; cases "Build pkg")
    (auto intro!: tracks_intros tracks_insert_vars tracks_insert_images tracks_policy_template
      tracks_data_stream tracks_transform tracks_changelog)

lemma inserts_nothing_create_loop:
  "inserts_nothing (for_each ts (\<lambda>t. wrapped (msg t) (exec_create w t)))"
proof (induction ts)
  case Nil
  show ?case by (simp add: inserts_nothing_def ok_def)
next
  case (Cons t ts)
  have one: "rejected (snd (wrapped (msg t) (exec_create w t) s)) = rejected s" for s
    by (simp add: wrapped_def exec_create_def split: option.splits)
  show ?case
    unfolding inserts_nothing_def
  proof
    fix s
    obtain r1 s1 where h: "wrapped (msg t) (exec_create w t) s = (r1, s1)"
      by (cases "wrapped (msg t) (exec_create w t) s")
    with one [of s] have "rejected s1 = rejected s" by simp
    with Cons.IH h show
      "rejected (snd (for_each (t # ts) (\<lambda>t. wrapped (msg t) (exec_create w t)) s)) = rejected s"
      by (cases r1) (simp_all add: seq_def and_then_def inserts_nothing_def)
  qed
qed

text \<open>
  A transaction that returns an error leaves the rows and the tables of the store as
  they were: whatever the body did is rolled back (or was never committed).
\<close>

lemma in_transaction_atomic:
  assumes "in_transaction w body db = (Err err, db')"
  shows "rows db' = rows db \<and> tables db' = tables db"
  using assms
  by (auto simp: in_transaction_def txDone_def
      split: option.splits prod.splits result.splits)

lemma in_transaction_rejected:
  assumes "tracks body" and "in_transaction w body db = (res, db')"
  shows "rejected db' = rejected db \<or>
     (\<exists>r e inner. rejected db' = rejected db @ [(r, e)] \<and> res = Err inner \<and> wraps inner e \<and>
        rows db' = rows db \<and> tables db' = tables db)"
proof (cases "begin_error (sql_driver w) db")
  case (Some e)
  with assms(2) show ?thesis by (simp add: in_transaction_def)
next
  case None
  obtain r1 t where body: "body db = (r1, t)" by (cases "body db")
  from assms(1) have t: "outcome_tracks db (r1, t)"
    unfolding tracks_def using body by metis
  show ?thesis
  proof (cases r1)
    case (Ok u)
    with t have "rejected t = rejected db" by (simp add: outcome_tracks_def)
    with assms(2) None body Ok show ?thesis
      by (auto simp: in_transaction_def txDone_def split: option.splits)
  next
    case (Panicked p)
    with t have "rejected t = rejected db" by (simp add: outcome_tracks_def)
    with assms(2) None body Panicked show ?thesis
      by (auto simp: in_transaction_def txDone_def split: option.splits)
  next
    case (Err e0)
    with t have "rejected t = rejected db \<or>
        (\<exists>r e. rejected t = rejected db @ [(r, e)] \<and> wraps e0 e)"
      by (simp add: outcome_tracks_def)
    with assms(2) None body Err show ?thesis
      by (auto simp: in_transaction_def txDone_def split: option.splits)
  qed
qed

lemma in_transaction_inserts_nothing:
  assumes "inserts_nothing body" and "in_transaction w body db = (res, db')"
  shows "rejected db' = rejected db"
proof -
  from assms(1) have "rejected (snd (body db)) = rejected db"
    by (simp add: inserts_nothing_def)
  with assms(2) show ?thesis
    by (auto simp: in_transaction_def txDone_def
        split: option.splits prod.splits result.splits)
qed

lemma createTables_rejected: "createTables w db = (res, db') \<Longrightarrow> rejected db' = rejected db"
  unfolding createTables_def
  by (rule in_transaction_inserts_nothing [OF inserts_nothing_create_loop])

lemma insertPackage_rejected:
  assumes "insertPackage w db pkg = (res, db')"
  shows "rejected db' = rejected db \<or>
     (\<exists>r e inner. rejected db' = rejected db @ [(r, e)] \<and> res = Err inner \<and> wraps inner e \<and>
        rows db' = rows db \<and> tables db' = tables db)"
  using assms unfolding insertPackage_def
  by (rule in_transaction_rejected [OF tracks_insertPackage_body])

text \<open>
  The loop of \<open>WritePackages\<close>: when an insert was rejected, the loop stopped at the
  package that made it, with the wrapped error, and the store shows what the packages
  before it committed and nothing of this one.
\<close>

lemma write_loop_rejected:
  assumes "write_loop w db0 pkgs = (res, db')" and "rejected db' \<noteq> rejected db0"
  shows "\<exists>before pkg after r e inner db1.
     pkgs = before @ pkg # after \<and>
     write_loop w db0 before = (Ok (), db1) \<and>
     rejected db' = rejected db0 @ [(r, e)] \<and>
     rows db' = rows db1 \<and> tables db' = tables db1 \<and>
     res = Err (Wrapf (''failed inserting '' @ strconv_Quote (filepath_Base (Integration.Path pkg)))
                  inner) \<and>
     wraps inner e"
  using assms
proof (induction pkgs arbitrary: db0)
  case Nil
  then show ?case by simp
next
  case (Cons pkg pkgs)
  obtain r1 d1 where ins: "insertPackage w db0 pkg = (r1, d1)"
    by (cases "insertPackage w db0 pkg")
  note hist = insertPackage_rejected [OF ins]
  show ?case
  proof (cases r1)
    case (Ok u)
    with hist have same: "rejected d1 = rejected db0" by auto
    from Cons.prems(1) ins Ok have loop: "write_loop w d1 pkgs = (res, db')" by simp
    from Cons.prems(2) same have "rejected db' \<noteq> rejected d1" by simp
    from Cons.IH [OF loop this] obtain before p after r e inner db1 where *:
      "pkgs = before @ p # after" "write_loop w d1 before = (Ok (), db1)"
      "rejected db' = rejected d1 @ [(r, e)]" "rows db' = rows db1" "tables db' = tables db1"
      "res = Err (Wrapf (''failed inserting '' @ strconv_Quote (filepath_Base (Integration.Path p)))
                   inner)"
      "wraps inner e"
      by blast
    from *(2) ins Ok have "write_loop w db0 (pkg # before) = (Ok (), db1)" by simp
    with * same show ?thesis
      by (intro exI [of _ "pkg # before"] exI [of _ p] exI [of _ after] exI [of _ r]
          exI [of _ e] exI [of _ inner] exI [of _ db1]) simp
  next
    case (Err e1)
    with Cons.prems(1) ins have res: "db' = d1"
      "res = Err (Wrapf (''failed inserting '' @ strconv_Quote (filepath_Base (Integration.Path pkg)))
                   e1)"
      by simp_all
    with Cons.prems(2) hist Err obtain r e where
      "rejected d1 = rejected db0 @ [(r, e)]" "wraps e1 e" "rows d1 = rows db0"
      "tables d1 = tables db0"
      by auto
    with res show ?thesis
      by (intro exI [of _ "[]"] exI [of _ pkg] exI [of _ pkgs] exI [of _ r]
          exI [of _ e] exI [of _ e1] exI [of _ db0]) simp
  next
    case (Panicked p)
    with Cons.prems(1) ins have "db' = d1" by simp
    with Cons.prems(2) hist Panicked show ?thesis by auto
  qed
qed

text \<open>
  A panic is another matter: the deferred \<open>txDone\<close> commits what the body had
  inserted. With a nil entry in a failure branch, the rows of the package, its data
  stream and its pipeline stay in the store without any processor.
\<close>

lemma panic_commits_partial_package:
  "fst (WritePackages accepting_world empty_store
          [example_package [Some (Processor ''rename'' None [None] ''default.yml'' 2 5)]]) =
     Panicked ''invalid memory address or nil pointer dereference''"
  "map table (rows (snd (WritePackages accepting_world empty_store
          [example_package [Some (Processor ''rename'' None [None] ''default.yml'' 2 5)]]))) =
     [''integrations'', ''data_streams'', ''ingest_pipelines'']"
  by code_simp+

text \<open>The example run in which the driver rejects the third processor row.\<close>

lemma example_run:
  "fst (WritePackages example_world empty_store
          [example_package [Some example_rename, Some example_remove]]) =
     Err (Wrapf ''failed inserting \"nginx\"''
            (Join [Wrapf ''failed to insert processor remove at /processors/1/remove''
                     (ErrorString ''constraint failed: CHECK constraint failed (275)'')]))"
  "rejected (snd (WritePackages example_world empty_store
          [example_package [Some example_rename, Some example_remove]])) \<noteq> []"
  "rows (snd (WritePackages example_world empty_store
          [example_package [Some example_rename, Some example_remove]])) = []"
  by code_simp+

section \<open>Claims about the flattener\<close>

text \<open>
  Claim C1, as the code has it: for every pipeline of the shape \<open>[A(fails -> [B]), C]\<close>,
  where B and C carry no failure branch, \<open>FlattenProcessors\<close> with base prefix
  \<open>/processors\<close> returns exactly the records of B, A and C in this order, and their
  locators are \<open>/processors/0/<type of A>/on_failure/0/<type of B>\<close>,
  \<open>/processors/0/<type of A>\<close> and \<open>/processors/1/<type of C>\<close>: every locator ends
  with the declared type of its node.
\<close>

theorem C1_flattening_order:
  "map_sum id (map (\<lambda>r. (FlatProcessor.Type r, JSONPointer r)))
     (FlattenProcessors
        [Some (Processor tA aA [Some (Processor tB aB [] pB lB cB)] pA lA cA),
         Some (Processor tC aC [] pC lC cC)]
        ''/processors'') =
   Inr [(tB, ''/processors/0/'' @ tA @ ''/on_failure/0/'' @ tB),
        (tA, ''/processors/0/'' @ tA),
        (tC, ''/processors/1/'' @ tC)]"
  by (simp add: FlattenProcessors_def Let_def fmt_d_0 fmt_d_1)

text \<open>
  The locators \<open>/processors/0/on_failure/0\<close>, \<open>/processors/0\<close>, \<open>/processors/1\<close> that
  claim C1 states are not the ones \<open>FlattenProcessors\<close> computes for the example pipeline.
\<close>

theorem C1_flattening_order_counterexample:
  "map_sum id (map JSONPointer)
     (FlattenProcessors
        [Some (Processor ''rename'' (Some [(''field'', GString ''old_field'')])
           [Some (Processor ''set'' (Some [(''field'', GString ''error.message'')]) []
              ''default.yml'' 5 9)]
           ''default.yml'' 2 5),
         Some (Processor ''remove'' (Some [(''field'', GString ''bytes'')]) []
           ''default.yml'' 8 5)]
        ''/processors'') =
     Inr [''/processors/0/rename/on_failure/0/set'', ''/processors/0/rename'',
          ''/processors/1/remove''] \<and>
   map_sum id (map JSONPointer)
     (FlattenProcessors
        [Some (Processor ''rename'' (Some [(''field'', GString ''old_field'')])
           [Some (Processor ''set'' (Some [(''field'', GString ''error.message'')]) []
              ''default.yml'' 5 9)]
           ''default.yml'' 2 5),
         Some (Processor ''remove'' (Some [(''field'', GString ''bytes'')]) []
           ''default.yml'' 8 5)]
        ''/processors'') \<noteq>
     Inr [''/processors/0/on_failure/0'', ''/processors/0'', ''/processors/1'']"
  by (simp add: FlattenProcessors_def Let_def fmt_d_0 fmt_d_1)









text \<open>
  Claim C10 fails on the code: a failure branch holding a nil entry makes the loop that
  builds the embedded summary read \<open>of.Type\<close> through a nil pointer, so
  \<open>FlattenProcessors\<close> panics instead of returning a nil error. The outer loop of the
  same function skips nil entries.
\<close>

theorem C10_nil_in_failure_branch_panics:
  "FlattenProcessors [Some (Processor ''rename'' None [None] ''default.yml'' 2 5)] ''/processors'' =
     Inl nil_panic"
  by (simp add: FlattenProcessors_def Let_def)

section \<open>Claims about the projector\<close>

text \<open>
  Claim C7 fails on the code. The example field declares the normalization
  \<open>["custom"]\<close> and no normalizer; unresolved, the row keeps \<open>["custom"]\<close>; resolved to
  an ECS array field, the row's normalization is overwritten with \<open>["array"]\<close>, while
  the locally declared type \<open>keyword\<close> is kept against the ECS type \<open>ip\<close>.
\<close>

theorem C7_external_array_overwrites_local_normalize:
  "InsertFieldParams.Normalize (insertField_params json_Marshal example_field None) =
     Some ''[\"custom\"]'' \<and>
   InsertFieldParams.Normalize (insertField_params json_Marshal example_field (Some example_ecs)) =
     Some ''[\"array\"]'' \<and>
   InsertFieldParams.Type (insertField_params json_Marshal example_field (Some example_ecs)) =
     Some ''keyword''"
proof -
  have f: "Field.Normalizer example_field = ''''" "Field.Normalize example_field = Some [''custom'']"
    "Field.Type example_field = ''keyword''"
    by (simp_all add: example_field_def)
  have d: "Array example_ecs" by (simp add: example_ecs_def)
  have a: "jsonNullString json_Marshal (GSlice [GString ''array'']) = Some ''[\"array\"]''"
    by (simp add: jsonNullString_def IsValid_def json_Marshal_strings del: json_Marshal.simps)
  have c: "jsonNullString json_Marshal (GSlice [GString ''custom'']) = Some ''[\"custom\"]''"
    by (simp add: jsonNullString_def IsValid_def json_Marshal_strings del: json_Marshal.simps)
  show ?thesis
    using insertField_keeps_local_type [of example_field json_Marshal "Some example_ecs"]
    by (simp add: insertField_normalize insertField_unresolved_normalize f d a c strings_any_def)
qed

text \<open>
  Claim C8, as the code has it: an empty list, nil or allocated, is stored as null, and
  so is a nil map; a list is stored as null only when it is empty; an allocated map is
  never nulled, not even with no entry: the column is the text the JSON encoder gives
  for it. A Variable whose default-value list is explicitly empty gets a null default
  value and the same row as the Variable with no default-value field.
\<close>

theorem C8_empty_list_stored_as_null:
  "jsonNullString marshal GNilSlice = None \<and>
   (jsonNullString marshal (GSlice xs) = None) = (xs = []) \<and>
   jsonNullString marshal GNilMap = None \<and>
   jsonNullString marshal (GMap kvs) =
     Some (case marshal (GMap kvs) of Inl err \<Rightarrow> [] | Inr j \<Rightarrow> j) \<and>
   DefaultValue (insertVar_params marshal (v\<lparr>Default := GSlice []\<rparr>)) = None \<and>
   insertVar_params marshal (v\<lparr>Default := GSlice []\<rparr>) =
     insertVar_params marshal (v\<lparr>Default := GNil\<rparr>)"
  by (simp add: jsonNullString_def IsValid_def insertVar_params_def)

text \<open>An allocated map with no entry is stored as the literal \<open>{}\<close>, not as null.\<close>

theorem C8_empty_map_counterexample:
  "jsonNullString json_Marshal (GMap []) = Some ''{}'' \<and>
   DefaultValue (insertVar_params json_Marshal (example_var\<lparr>Default := GMap []\<rparr>)) =
     Some ''{}''"
  by (simp add: jsonNullString_def IsValid_def insertVar_params_def)

section \<open>Claims about the query surface\<close>

text \<open>
  Claim C6, as the code has it: while the shared store reference is still unset, before
  the first successful build publish, every execute-query request returns at once, with a
  nil Go error and whatever the statement, the tool result with the text
  \<open>ERROR: database is still initializing, please retry in a moment\<close> and the flag
  \<open>IsError\<close> set. It is built by \<open>mcpErrorf\<close> as the result for a statement the store
  rejects is, and differs from that one by its text.
\<close>

theorem C6_not_ready_result:
  assumes "db statement' = Inl err"
  shows "executeQuery initial_dbPtr marshal statement =
       (\<lparr>Text = ''ERROR: database is still initializing, please retry in a moment'',
         IsError = True\<rparr>, None) \<and>
     executeQuery (Some db) marshal statement' =
       (\<lparr>Text = ''ERROR: failed to execute query: '' @ Error err, IsError = True\<rparr>, None) \<and>
     Text (fst (executeQuery (Some db) marshal statement')) \<noteq>
       Text (fst (executeQuery initial_dbPtr marshal statement))"
  using assms
  by (simp add: executeQuery_def initial_dbPtr_def mcpErrorf_def)

theorem C6_not_ready_result_witness:
  "example_rejecting_db ''SELEC'' =
     Inl (ErrorString ''SQL logic error: near \"SELEC\": syntax error (1)'') \<and>
   executeQuery None json_Marshal ''SELECT 1'' =
     (\<lparr>Text = ''ERROR: database is still initializing, please retry in a moment'',
       IsError = True\<rparr>, None) \<and>
   executeQuery (Some example_rejecting_db) json_Marshal ''SELEC'' =
     (\<lparr>Text = ''ERROR: failed to execute query: SQL logic error: near \"SELEC\": syntax error (1)'',
       IsError = True\<rparr>, None)"
proof -
  have h: "example_rejecting_db ''SELEC'' =
      Inl (ErrorString ''SQL logic error: near \"SELEC\": syntax error (1)'')"
    by (simp add: example_rejecting_db_def)
  from C6_not_ready_result [where db = example_rejecting_db and statement' = "''SELEC''"
      and marshal = json_Marshal and statement = "''SELECT 1''", OF h] h
  show ?thesis
    by (simp add: initial_dbPtr_def)
qed

text \<open>The not-ready result is flagged as an error, as the result of a rejected query is.\<close>

theorem C6_not_ready_is_error_counterexample:
  "IsError (fst (executeQuery initial_dbPtr json_Marshal ''SELECT 1'')) \<and>
   IsError (fst (executeQuery (Some example_rejecting_db) json_Marshal ''SELEC'')) \<and>
   \<not> IsError (fst (executeQuery (Some example_db) json_Marshal ''SELECT name, version FROM integrations''))"
  by (simp add: executeQuery_def initial_dbPtr_def mcpErrorf_def example_rejecting_db_def
      example_db_def)

section \<open>Claims about the writer\<close>

text \<open>
  Claim C5: when the driver rejects an insert during \<open>WritePackages\<close>, the call
  stops at the package that made the insert; the store then shows the rows and tables
  that the packages before it committed and no row of this package; and the error
  returned is \<open>failed inserting "<base name of the package's directory>": ...\<close>
  around an error that wraps the driver's error.
\<close>

theorem C5_rejected_insert_rolls_back_package:
  assumes "WritePackages w db pkgs = (res, db')" and "rejected db' \<noteq> rejected db"
  shows "\<exists>before pkg after r e inner db0.
     pkgs = before @ pkg # after \<and>
     WritePackages w db before = (Ok (), db0) \<and>
     rejected db' = rejected db @ [(r, e)] \<and>
     rows db' = rows db0 \<and> tables db' = tables db0 \<and>
     res = Err (Wrapf (''failed inserting '' @ strconv_Quote (filepath_Base (Integration.Path pkg)))
                  inner) \<and>
     wraps inner e"
proof -
  obtain rc dc where ct: "createTables w db = (rc, dc)"
    by (cases "createTables w db")
  from createTables_rejected [OF ct] have same: "rejected dc = rejected db" .
  show ?thesis
  proof (cases rc)
    case (Ok u)
    with assms(1) ct have loop: "write_loop w dc pkgs = (res, db')"
      by (simp add: WritePackages_def)
    from assms(2) same have "rejected db' \<noteq> rejected dc" by simp
    from write_loop_rejected [OF loop this] obtain before pkg after r e inner db1 where *:
      "pkgs = before @ pkg # after" "write_loop w dc before = (Ok (), db1)"
      "rejected db' = rejected dc @ [(r, e)]" "rows db' = rows db1" "tables db' = tables db1"
      "res = Err (Wrapf (''failed inserting '' @ strconv_Quote (filepath_Base (Integration.Path pkg)))
                   inner)"
      "wraps inner e"
      by blast
    from *(2) ct Ok have "WritePackages w db before = (Ok (), db1)"
      by (simp add: WritePackages_def)
    with * same show ?thesis
      by (intro exI [of _ before] exI [of _ pkg] exI [of _ after] exI [of _ r]
          exI [of _ e] exI [of _ inner] exI [of _ db1]) simp
  next
    case (Err e)
    with assms ct same show ?thesis by (simp add: WritePackages_def)
  next
    case (Panicked p)
    with assms ct same show ?thesis by (simp add: WritePackages_def)
  qed
qed

text \<open>
  The driver of the example rejects the third processor row of the package \<open>nginx\<close>:
  the rows inserted before it are gone and the error names the package.
\<close>

theorem C5_rejected_insert_rolls_back_package_witness:
  "\<exists>res db'.
     WritePackages example_world empty_store
       [example_package [Some example_rename, Some example_remove]] = (res, db') \<and>
     rejected db' \<noteq> rejected empty_store \<and>
     rows db' = [] \<and>
     res = Err (Wrapf ''failed inserting \"nginx\"''
              (Join [Wrapf ''failed to insert processor remove at /processors/1/remove''
                       (ErrorString ''constraint failed: CHECK constraint failed (275)'')])) \<and>
     (\<exists>before pkg after r e inner db0.
        [example_package [Some example_rename, Some example_remove]] = before @ pkg # after \<and>
        WritePackages example_world empty_store before = (Ok (), db0) \<and>
        rejected db' = rejected empty_store @ [(r, e)] \<and>
        rows db' = rows db0 \<and> tables db' = tables db0 \<and>
        res = Err (Wrapf (''failed inserting '' @
                     strconv_Quote (filepath_Base (Integration.Path pkg))) inner) \<and>
        wraps inner e)"
proof -
  let ?pkgs = "[example_package [Some example_rename, Some example_remove]]"
  obtain res db' where out: "WritePackages example_world empty_store ?pkgs = (res, db')"
    by (cases "WritePackages example_world empty_store ?pkgs")
  from example_run out have r:
    "res = Err (Wrapf ''failed inserting \"nginx\"''
              (Join [Wrapf ''failed to insert processor remove at /processors/1/remove''
                       (ErrorString ''constraint failed: CHECK constraint failed (275)'')]))"
    "rejected db' \<noteq> []" "rows db' = []"
    by simp_all
  from r(2) have h: "rejected db' \<noteq> rejected empty_store"
    by (simp add: empty_store_def)
  from C5_rejected_insert_rolls_back_package [OF out h] out h r show ?thesis
    by blast
qed

text \<open>
  Claim C9 fails on the code. The second processor of the pipeline holds a NaN, which
  \<open>json.Marshal\<close> rejects. \<open>WritePackages\<close> returns an error and no row of the
  package is stored, but neither the error nor its text names the locator
  \<open>/processors/1/set\<close> of the offending processor; the error for a rejected insert of
  the same loop does name type and locator.
\<close>

theorem C9_marshal_failure_names_no_locator:
  "map_sum id (map JSONPointer)
     (FlattenProcessors [Some example_rename, Some example_nan] ''/processors'') =
     Inr [''/processors/0/rename/on_failure/0/set'', ''/processors/0/rename'',
          ''/processors/1/set''] \<and>
   fst (WritePackages accepting_world empty_store
          [example_package [Some example_rename, Some example_nan]]) =
     Err (Wrapf ''failed inserting \"nginx\"''
            (Join [Wrapf ''failed to marshal processor attributes''
                     (Wrapf ''failed to marshal processor attributes''
                        (ErrorString ''json: unsupported value: NaN''))])) \<and>
   rows (snd (WritePackages accepting_world empty_store
          [example_package [Some example_rename, Some example_nan]])) = [] \<and>
   Error (Wrapf ''failed inserting \"nginx\"''
            (Join [Wrapf ''failed to marshal processor attributes''
                     (Wrapf ''failed to marshal processor attributes''
                        (ErrorString ''json: unsupported value: NaN''))])) =
     ''failed inserting \"nginx\": failed to marshal processor attributes: failed to marshal processor attributes: json: unsupported value: NaN'' \<and>
   \<not> sublist ''/processors/1/set''
       ''failed inserting \"nginx\": failed to marshal processor attributes: failed to marshal processor attributes: json: unsupported value: NaN''"
  by code_simp

end
